theory Spec2Isabelle
  imports Main "HOL-Library.AList"
begin

section \<open>Data model of \<^verbatim>\<open>libs/judger.js\<close>\<close>

text \<open>
  The module distributes judge tasks to worker connections over a Redis sorted set and
  folds the workers' progress and result reports into an in-memory cache and the
  \<^verbatim>\<open>judge_state\<close> table. Everything the handlers call outside the module (the logger,
  the socket, the progress pusher, the table) is recorded in a trace of effects, in
  the order the code performs the calls.
\<close>

subsection \<open>Tasks and queue entries\<close>

datatype problem_type = Standard | Interaction | AnswerSubmission

text \<open>
  The \<^verbatim>\<open>param\<close> object literal of \<^verbatim>\<open>judge\<close>: the interaction branch builds four fields,
  the default branch six, the last two being \<^verbatim>\<open>null\<close> unless the problem uses file IO.
\<close>

datatype task_param =
    InteractionParam string string int int
  | StandardParam string string int int "string option" "string option"

record task_content =
  taskId :: string
  testData :: string
  type :: problem_type
  priority :: int
  param :: "task_param option"

record task =
  content :: task_content
  extraData :: "nat list option"

text \<open>What \<^verbatim>\<open>judgeQueue.poll\<close> returns and the session keeps in \<^verbatim>\<open>pendingAckTaskObj\<close>.\<close>

record queue_entry =
  data :: task
  entry_priority :: int

subsection \<open>Report messages\<close>

text \<open>
  A report is the decoded \<^verbatim>\<open>{taskId, type, progress}\<close> object. The handlers compare its
  \<^verbatim>\<open>type\<close> with the five members of \<^verbatim>\<open>interface.ProgressReportType\<close>, with \<^verbatim>\<open>===\<close>
  everywhere but in the \<^verbatim>\<open>Compiled\<close> test of \<^verbatim>\<open>reportResult\<close>, which uses \<^verbatim>\<open>==\<close>.
  \<open>CompiledLoosely\<close> stands for every decoded value that is \<^verbatim>\<open>==\<close> to the member
  \<^verbatim>\<open>Compiled\<close> without being \<^verbatim>\<open>===\<close> to it (the member as a string, say): no \<^verbatim>\<open>===\<close> test
  accepts it, the \<^verbatim>\<open>==\<close> test does. \<open>Unrecognized\<close> stands for every decoded value
  that equals none of the five under either comparison. Of the
  payload the module itself reads \<^verbatim>\<open>judge.subtasks[].cases[].status\<close> only; the payload
  is typed with exactly that shape, and is otherwise handed on unread.
\<close>

datatype report_type =
  Started | Compiled | Progress | Finished | Reported | CompiledLoosely | Unrecognized

record testcase =
  status :: int

record subtask =
  cases :: "testcase list"

record judge_result =
  subtasks :: "subtask list"

record payload =
  payload_judge :: judge_result

record report =
  report_taskId :: string
  report_type :: report_type
  progress :: payload

text \<open>The object returned by the collaborator \<^verbatim>\<open>judgeResult.convertResult\<close>.\<close>

record converted_result =
  cr_score :: int
  cr_time :: int
  cr_memory :: int
  statusString :: string
  cr_result :: string

text \<open>A value of \<^verbatim>\<open>judgeStateCache\<close>.\<close>

record snapshot =
  result :: string
  score :: int
  time :: int
  memory :: int

text \<open>A row of the \<^verbatim>\<open>judge_state\<close> table, with the columns this module reads or writes.\<close>

record judge_state =
  task_id :: string
  code :: string
  language :: string
  js_score :: int
  pending :: bool
  js_status :: string
  total_time :: int
  max_memory :: int
  js_result :: string
  compilation :: "payload option"

record problem =
  problem_id :: nat
  problem_type :: string
  time_limit :: int
  memory_limit :: int
  file_io :: bool
  file_io_input_name :: string
  file_io_output_name :: string

subsection \<open>Effects and the state\<close>

text \<open>
  One constructor for each call that leaves the module: the logger, the acknowledgement
  of \<^verbatim>\<open>waitForTask\<close>, \<^verbatim>\<open>socket.emit('onTask', ...)\<close>, the five calls into the progress
  pusher, \<^verbatim>\<open>save\<close> and \<^verbatim>\<open>updateRelatedInfo\<close> of a row, and the \<^verbatim>\<open>ZADD\<close> sent to Redis.
\<close>

datatype log_level = Info | Warn | Verbose | Error

datatype effect =
    Log log_level string
  | Ack
  | EmitOnTask task
  | CreateTask string
  | UpdateCompileStatus string payload
  | UpdateProgress string payload
  | UpdateResult string payload
  | CleanupProgress string
  | Save string
  | UpdateRelatedInfo string
  | RedisZADD int task

text \<open>
  The Redis sorted set \<^verbatim>\<open>judge\<close>: one score per member, so an association list from
  member to score. A member is the text \<^verbatim>\<open>JSON.stringify\<close> gives for a task object; a
  requeue serialises what \<^verbatim>\<open>JSON.parse\<close> made of a member, which is the member again.
  The model identifies a member with the task it serialises.
\<close>

type_synonym zset = "(task \<times> int) list"

text \<open>
  The state holds the closure variables of one connection (\<open>pendingAckTaskObj\<close>,
  \<open>waitingForTask\<close>), its socket (\<open>socket_id\<close>, \<open>connected\<close>), the number of
  \<^verbatim>\<open>waitForTask\<close> invocations suspended at \<^verbatim>\<open>await judgeQueue.poll(10)\<close>
  (\<open>pollLoops\<close>), and what the module shares between connections: the sorted set, the
  cache, the table, the pending \<^verbatim>\<open>setTimeout\<close> callbacks (due time in milliseconds and
  the task id each deletes) with the clock, and the trace of effects.
\<close>

record state =
  socket_id :: string
  connected :: bool
  pendingAckTaskObj :: "queue_entry option"
  waitingForTask :: bool
  pollLoops :: nat
  judgeQueue :: zset
  judgeStateCache :: "string \<rightharpoonup> snapshot"
  JudgeState :: "string \<rightharpoonup> judge_state"
  timers :: "(nat \<times> string) list"
  now :: nat
  trace :: "effect list"

definition emit :: "effect \<Rightarrow> state \<Rightarrow> state" where
  "emit e s = s\<lparr>trace := trace s @ [e]\<rparr>"

section \<open>The operations\<close>

subsection \<open>\<^verbatim>\<open>getRunningTaskStatusString\<close>\<close>

text \<open>A template literal prints a non-negative integer in decimal.\<close>

fun decimal :: "nat \<Rightarrow> string" where
  "decimal n =
     (if n < 10 then [''0123456789'' ! n]
      else decimal (n div 10) @ [''0123456789'' ! (n mod 10)])"

declare decimal.simps [simp del]

definition isPending :: "int \<Rightarrow> bool" where
  "isPending st = (st \<in> set [0, 1])"

text \<open>The body of the inner loop, on the pair of counters \<open>(allFinished, allTotal)\<close>.\<close>

definition count_case :: "testcase \<Rightarrow> nat \<times> nat \<Rightarrow> nat \<times> nat" where
  "count_case cur acc =
     (case acc of (allFinished, allTotal) \<Rightarrow>
        (if \<not> isPending (status cur) then allFinished + 1 else allFinished, allTotal + 1))"

definition count_cases :: "payload \<Rightarrow> nat \<times> nat" where
  "count_cases res =
     fold (\<lambda>subtask acc. fold count_case (cases subtask) acc) (subtasks (payload_judge res)) (0, 0)"

definition getRunningTaskStatusString :: "payload \<Rightarrow> string" where
  "getRunningTaskStatusString res =
     (case count_cases res of (allFinished, allTotal) \<Rightarrow>
        ''Running '' @ decimal allFinished @ ''/'' @ decimal allTotal)"

subsection \<open>\<^verbatim>\<open>judgeQueue\<close>\<close>

text \<open>
  \<^verbatim>\<open>ZADD judge priority member\<close> sets the score of the member, adding it when absent.
  \<^verbatim>\<open>BZPOPMAX\<close> answers with a member of greatest score, which it removes, or with
  nothing when the set stayed empty for the timeout; the reply belongs to Redis, so the
  model takes it as an input and says which replies the set allows. Of the reply
  \<^verbatim>\<open>[key, member, score]\<close> the code reads the member and the score.
\<close>

definition redisZADD :: "int \<Rightarrow> task \<Rightarrow> zset \<Rightarrow> zset" where
  "redisZADD sc member z = AList.update member sc z"

definition push :: "task \<Rightarrow> int \<Rightarrow> state \<Rightarrow> state" where
  "push d p s = emit (RedisZADD p d) (s\<lparr>judgeQueue := redisZADD p d (judgeQueue s)\<rparr>)"

definition bzpopmax_reply :: "zset \<Rightarrow> (task \<times> int) option \<Rightarrow> bool" where
  "bzpopmax_reply z r =
     (case r of
        None \<Rightarrow> z = []
      | Some (member, sc) \<Rightarrow> map_of z member = Some sc \<and> (\<forall>e \<in> set z. snd e \<le> sc))"

definition bzpopmax_remove :: "(task \<times> int) option \<Rightarrow> zset \<Rightarrow> zset" where
  "bzpopmax_remove r z = (case r of None \<Rightarrow> z | Some (member, sc) \<Rightarrow> AList.delete member z)"

definition poll :: "(task \<times> int) option \<Rightarrow> queue_entry option" where
  "poll r =
     (case r of
        None \<Rightarrow> None
      | Some (member, sc) \<Rightarrow> Some \<lparr>data = member, entry_priority = sc\<rparr>)"

subsection \<open>What the module takes from its surroundings\<close>

text \<open>
  \<open>judge_token\<close> is \<^verbatim>\<open>syzoj.config.judge_token\<close>; tokens are strings, on which
  \<^verbatim>\<open>!=\<close> and \<^verbatim>\<open>!==\<close> agree. \<open>convertResult\<close> is \<^verbatim>\<open>judgeResult.convertResult\<close>,
  \<open>type_text\<close> the text a report type has under string concatenation,
  \<open>resolvePath\<close> is \<^verbatim>\<open>syzoj.model('file').resolvePath\<close>, and \<open>readFileAsync\<close> the
  promisified \<^verbatim>\<open>fs.readFile\<close>, which either rejects or yields the bytes of the file.
\<close>

datatype error = ReadFileError string

record env =
  judge_token :: string
  convertResult :: "string \<Rightarrow> payload \<Rightarrow> converted_result"
  type_text :: "report_type \<Rightarrow> string"
  resolvePath :: "string \<Rightarrow> string \<Rightarrow> string"
  readFileAsync :: "string \<Rightarrow> error + nat list"

subsection \<open>The \<^verbatim>\<open>waitForTask\<close> handler\<close>

text \<open>
  The handler is an \<^verbatim>\<open>async\<close> function that suspends at
  \<^verbatim>\<open>await judgeQueue.poll(10)\<close>. \<open>waitForTask_loop obj\<close> is the code from the test of
  the \<^verbatim>\<open>while\<close> loop onwards, with the current value of \<^verbatim>\<open>obj\<close>: it either suspends in
  another poll (one more suspended invocation) or leaves the loop and runs to the end.
\<close>

definition waitForTask_loop :: "queue_entry option \<Rightarrow> state \<Rightarrow> state" where
  "waitForTask_loop obj s =
     (if connected s \<and> obj = None then s\<lparr>pollLoops := pollLoops s + 1\<rparr>
      else
        (case obj of
           None \<Rightarrow>
             emit (Log Verbose (''Judge client '' @ socket_id s @
                                '' disconnected, stop poll the queue.'')) s
         | Some ob \<Rightarrow>
             if \<not> connected s then
               push (data ob) (entry_priority ob)
                 (emit (Log Verbose (''Judge client '' @ socket_id s @
                          '' got task but disconnected re-pushing task to queue.'')) s)
             else
               emit (EmitOnTask (data ob))
                 (emit (Log Verbose (''Sending task '' @ taskId (content (data ob)) @
                          '' to judge client '' @ socket_id s @ ''.''))
                    (s\<lparr>pendingAckTaskObj := Some ob\<rparr>))))"

definition waitForTask :: "env \<Rightarrow> string \<Rightarrow> state \<Rightarrow> state" where
  "waitForTask env token s =
     (if token \<noteq> judge_token env then
        emit (Log Warn (''Judge client '' @ socket_id s @
                        '' emitted waitForTask with invalid token.'')) s
      else
        (let s1 = emit Ack s in
         if waitingForTask s1 then
           emit (Log Verbose (''Judge client '' @ socket_id s @
                              '' emitted waitForTask, but already waiting, ignoring.'')) s1
         else
           waitForTask_loop None
             (emit (Log Verbose (''Judge client '' @ socket_id s @ '' emitted waitForTask.''))
                (s1\<lparr>waitingForTask := True\<rparr>))))"

text \<open>The suspended invocation resumes with the answer of \<^verbatim>\<open>BZPOPMAX\<close>.\<close>

definition waitForTask_resume :: "(task \<times> int) option \<Rightarrow> state \<Rightarrow> state" where
  "waitForTask_resume r s = waitForTask_loop (poll r) (s\<lparr>pollLoops := pollLoops s - 1\<rparr>)"

text \<open>The acknowledgement callback passed to \<^verbatim>\<open>socket.emit('onTask', ...)\<close>.\<close>

definition onTask_acked :: "task \<Rightarrow> state \<Rightarrow> state" where
  "onTask_acked t s =
     (emit (Log Verbose (''Judge client '' @ socket_id s @ '' acked task '' @
                         taskId (content t) @ ''.'')) s)
       \<lparr>pendingAckTaskObj := None, waitingForTask := False\<rparr>"

subsection \<open>The \<^verbatim>\<open>disconnect\<close> handler\<close>

text \<open>\<open>reason\<close> is the text \<^verbatim>\<open>util.inspect\<close> gives for the reason.\<close>

definition disconnect :: "string \<Rightarrow> state \<Rightarrow> state" where
  "disconnect reason s =
     (let s1 = emit (Log Info (''Judge client '' @ socket_id s @
                               '' disconnected, reason = '' @ reason @ ''.'')) s
      in case pendingAckTaskObj s1 of
           None \<Rightarrow> s1
         | Some ob \<Rightarrow>
             (push (data ob) (entry_priority ob)
                (emit (Log Warn (''Re-pushing task '' @ taskId (content (data ob)) @
                                 '' to judge queue.'')) s1))
               \<lparr>pendingAckTaskObj := None\<rparr>)"

subsection \<open>The \<^verbatim>\<open>reportProgress\<close> handler\<close>

text \<open>
  \<^verbatim>\<open>setTimeout(f, 5000)\<close> registers the callback for 5000 milliseconds after the
  current time.
\<close>

definition setTimeout :: "string \<Rightarrow> nat \<Rightarrow> state \<Rightarrow> state" where
  "setTimeout tid delay s = s\<lparr>timers := timers s @ [(now s + delay, tid)]\<rparr>"

definition cache_set :: "string \<Rightarrow> snapshot \<Rightarrow> state \<Rightarrow> state" where
  "cache_set tid v s = s\<lparr>judgeStateCache := (judgeStateCache s)(tid \<mapsto> v)\<rparr>"

definition reportProgress :: "env \<Rightarrow> string \<Rightarrow> report \<Rightarrow> state \<Rightarrow> state" where
  "reportProgress env token msg s =
     (if token \<noteq> judge_token env then
        emit (Log Warn (''Judge client '' @ socket_id s @
                        '' emitted reportProgress with invalid token.'')) s
      else
        (let tid = report_taskId msg;
             s1 = emit (Log Verbose (''Got progress from progress exchange, id: '' @ tid)) s
         in case report_type msg of
              Started \<Rightarrow>
                cache_set tid \<lparr>result = ''Compiling'', score = 0, time = 0, memory = 0\<rparr>
                  (emit (CreateTask tid) s1)
            | Compiled \<Rightarrow> emit (UpdateCompileStatus tid (progress msg)) s1
            | Progress \<Rightarrow>
                (let convertedResult = convertResult env tid (progress msg)
                 in emit (UpdateProgress tid (progress msg))
                      (cache_set tid
                         \<lparr>result = getRunningTaskStatusString (progress msg),
                          score = cr_score convertedResult,
                          time = cr_time convertedResult,
                          memory = cr_memory convertedResult\<rparr> s1))
            | Finished \<Rightarrow> setTimeout tid 5000 (emit (UpdateResult tid (progress msg)) s1)
            | Reported \<Rightarrow> emit (CleanupProgress tid) s1
            | CompiledLoosely \<Rightarrow> s1
            | Unrecognized \<Rightarrow> s1))"

text \<open>
  The clock reaches \<open>t\<close>: every callback due by then runs
  \<^verbatim>\<open>judgeStateCache.delete(progress.taskId)\<close> and leaves the list.
\<close>

definition run_timers :: "nat \<Rightarrow> state \<Rightarrow> state" where
  "run_timers t s =
     s\<lparr>judgeStateCache :=
         fold (\<lambda>(due, tid) c. if due \<le> t then c(tid := None) else c) (timers s)
           (judgeStateCache s),
       timers := filter (\<lambda>(due, tid). t < due) (timers s),
       now := max (now s) t\<rparr>"

subsection \<open>The \<^verbatim>\<open>reportResult\<close> handler\<close>

text \<open>
  \<^verbatim>\<open>JudgeState.findOne\<close> reads the row of the task; \<^verbatim>\<open>save\<close> writes the row back.
\<close>

definition save :: "string \<Rightarrow> judge_state \<Rightarrow> state \<Rightarrow> state" where
  "save tid row s = emit (Save tid) (s\<lparr>JudgeState := (JudgeState s)(tid \<mapsto> row)\<rparr>)"

definition reportResult :: "env \<Rightarrow> string \<Rightarrow> report \<Rightarrow> state \<Rightarrow> state" where
  "reportResult env token msg s =
     (if token \<noteq> judge_token env then
        emit (Log Warn (''Judge client '' @ socket_id s @
                        '' emitted reportResult with invalid token.'')) s
      else
        (let tid = report_taskId msg;
             s1 = emit (Log Verbose (''Received report for task '' @ tid)) s;
             found = JudgeState s1 tid
         in case report_type msg of
              Finished \<Rightarrow>
                (let convertedResult = convertResult env tid (progress msg);
                     s2 = emit (CleanupProgress tid)
                            (emit (Log Verbose (''Reporting report finished: '' @ tid)) s1)
                 in case found of
                      None \<Rightarrow> s2
                    | Some row \<Rightarrow>
                        emit (UpdateRelatedInfo tid)
                          (save tid
                             (row\<lparr>js_score := cr_score convertedResult,
                                  pending := False,
                                  js_status := statusString convertedResult,
                                  total_time := cr_time convertedResult,
                                  max_memory := cr_memory convertedResult,
                                  js_result := cr_result convertedResult\<rparr>) s2))
            | Compiled \<Rightarrow>
                (case found of
                   None \<Rightarrow> s1
                 | Some row \<Rightarrow> save tid (row\<lparr>compilation := Some (progress msg)\<rparr>) s1)
            | CompiledLoosely \<Rightarrow>
                (case found of
                   None \<Rightarrow> s1
                 | Some row \<Rightarrow> save tid (row\<lparr>compilation := Some (progress msg)\<rparr>) s1)
            | _ \<Rightarrow>
                emit (Log Error (''Unsupported result type: '' @
                                 type_text env (report_type msg))) s1))"

subsection \<open>\<^verbatim>\<open>judge\<close>\<close>

text \<open>
  The result pairs the rejection of the returned promise, if any, with the state the
  call leaves behind.
\<close>

definition judge :: "env \<Rightarrow> judge_state \<Rightarrow> problem \<Rightarrow> int \<Rightarrow> state \<Rightarrow> error option \<times> state" where
  "judge env judge_state problem prio s =
     (let chosen =
            (if problem_type problem = ''submit-answer'' then
               (case readFileAsync env (resolvePath env ''answer'' (code judge_state)) of
                  Inl e \<Rightarrow> Inl e
                | Inr bytes \<Rightarrow> Inr (AnswerSubmission, None, Some bytes))
             else if problem_type problem = ''interaction'' then
               Inr (Interaction,
                    Some (InteractionParam (language judge_state) (code judge_state)
                            (time_limit problem) (memory_limit problem)),
                    None)
             else
               Inr (Standard,
                    Some (StandardParam (language judge_state) (code judge_state)
                            (time_limit problem) (memory_limit problem)
                            (if file_io problem then Some (file_io_input_name problem) else None)
                            (if file_io problem then Some (file_io_output_name problem) else None)),
                    None))
      in case chosen of
           Inl e \<Rightarrow> (Some e, s)
         | Inr (ty, par, extra) \<Rightarrow>
             (None,
              push \<lparr>content = \<lparr>taskId = task_id judge_state,
                               testData = decimal (problem_id problem),
                               type = ty, priority = prio, param = par\<rparr>,
                    extraData = extra\<rparr> prio s))"

definition getCachedJudgeState :: "state \<Rightarrow> string \<Rightarrow> snapshot option" where
  "getCachedJudgeState s tid = judgeStateCache s tid"

subsection \<open>Events of one connection\<close>

text \<open>
  What can happen to a connection and to the shared state, one event at a time. Socket
  events reach the handlers of a connected socket only; the socket is marked
  disconnected before its \<^verbatim>\<open>disconnect\<close> handler runs; a poll answers only an invocation
  that is suspended in it, with a reply the sorted set allows; the acknowledgement of a
  task comes only for the task that waits for it.
\<close>

datatype event =
    WaitForTask string
  | PollReply "(task \<times> int) option"
  | TaskAcked
  | Disconnect string
  | ReportProgress string report
  | ReportResult string report
  | Submit judge_state problem int
  | Clock nat

definition enabled :: "event \<Rightarrow> state \<Rightarrow> bool" where
  "enabled ev s =
     (case ev of
        WaitForTask token \<Rightarrow> connected s
      | PollReply r \<Rightarrow> 0 < pollLoops s \<and> bzpopmax_reply (judgeQueue s) r
      | TaskAcked \<Rightarrow> connected s \<and> pendingAckTaskObj s \<noteq> None
      | Disconnect reason \<Rightarrow> connected s
      | ReportProgress token msg \<Rightarrow> connected s
      | ReportResult token msg \<Rightarrow> connected s
      | Submit judge_state problem prio \<Rightarrow> True
      | Clock t \<Rightarrow> now s \<le> t)"

definition step :: "env \<Rightarrow> event \<Rightarrow> state \<Rightarrow> state" where
  "step env ev s =
     (case ev of
        WaitForTask token \<Rightarrow> waitForTask env token s
      | PollReply r \<Rightarrow>
          waitForTask_resume r (s\<lparr>judgeQueue := bzpopmax_remove r (judgeQueue s)\<rparr>)
      | TaskAcked \<Rightarrow>
          (case pendingAckTaskObj s of None \<Rightarrow> s | Some ob \<Rightarrow> onTask_acked (data ob) s)
      | Disconnect reason \<Rightarrow> disconnect reason (s\<lparr>connected := False\<rparr>)
      | ReportProgress token msg \<Rightarrow> reportProgress env token msg s
      | ReportResult token msg \<Rightarrow> reportResult env token msg s
      | Submit judge_state problem prio \<Rightarrow> snd (judge env judge_state problem prio s)
      | Clock t \<Rightarrow> run_timers t s)"

fun run :: "env \<Rightarrow> event list \<Rightarrow> state \<Rightarrow> state option" where
  "run env [] s = Some s"
| "run env (ev # evs) s = (if enabled ev s then run env evs (step env ev s) else None)"

text \<open>A connection as \<^verbatim>\<open>judgeNamespace.on('connect', ...)\<close> sets it up.\<close>

definition fresh :: "state \<Rightarrow> bool" where
  "fresh s \<longleftrightarrow>
     connected s \<and> pendingAckTaskObj s = None \<and> \<not> waitingForTask s \<and> pollLoops s = 0"

text \<open>
  The \<^verbatim>\<open>connect\<close> handler of the namespace starts a session on a new socket. A dispatch
  attempt that fails is a new session that asks for a task, is answered by the poll
  with an entry, and loses its socket before the worker acknowledges the task: either
  before the poll answers (the entry is never sent) or after the task was sent.
  \<open>attempts\<close> runs such attempts one after the other, each with the same reply of
  the poll.
\<close>

definition on_connect :: "string \<Rightarrow> state \<Rightarrow> state" where
  "on_connect sid s =
     (emit (Log Info (''Judge client '' @ sid @ '' connected.'')) s)
       \<lparr>socket_id := sid, connected := True, pendingAckTaskObj := None,
        waitingForTask := False, pollLoops := 0\<rparr>"

datatype attempt_end = BeforeDelivery | BeforeAck

definition attempt_events :: "env \<Rightarrow> task \<times> int \<Rightarrow> string \<Rightarrow> attempt_end \<Rightarrow> event list" where
  "attempt_events env reply reason a =
     (case a of
        BeforeDelivery \<Rightarrow>
          [WaitForTask (judge_token env), Disconnect reason, PollReply (Some reply)]
      | BeforeAck \<Rightarrow>
          [WaitForTask (judge_token env), PollReply (Some reply), Disconnect reason])"

fun attempts :: "env \<Rightarrow> task \<times> int \<Rightarrow> (string \<times> string \<times> attempt_end) list \<Rightarrow> state \<Rightarrow> state option" where
  "attempts env reply [] s = Some s"
| "attempts env reply ((sid, reason, a) # rest) s =
     (case run env (attempt_events env reply reason a) (on_connect sid s) of
        None \<Rightarrow> None
      | Some s' \<Rightarrow> attempts env reply rest s')"

text \<open>The \<^verbatim>\<open>ZADD\<close> commands a state has sent so far, in order.\<close>

definition is_push :: "effect \<Rightarrow> bool" where
  "is_push e = (case e of RedisZADD p d \<Rightarrow> True | _ \<Rightarrow> False)"

definition pushes :: "state \<Rightarrow> effect list" where
  "pushes s = filter is_push (trace s)"

text \<open>
  What holds of the closure variables of a connection after any sequence of events: at
  most one invocation is suspended in a poll, and only while the session waits for a
  task with nothing pending; an entry is pending only while the session waits.
\<close>

definition session_inv :: "state \<Rightarrow> bool" where
  "session_inv s \<longleftrightarrow>
     pollLoops s \<le> 1
     \<and> (pollLoops s = 1 \<longrightarrow> waitingForTask s \<and> pendingAckTaskObj s = None)
     \<and> (\<not> waitingForTask s \<longrightarrow> pendingAckTaskObj s = None)"

subsection \<open>The counts the status string reports\<close>

text \<open>
  In the words of the specification: a case counts as finished iff its status is not
  one of the two pending status codes 0 and 1; the cases are those of all subtasks.
\<close>

definition finished :: "testcase \<Rightarrow> bool" where
  "finished c \<longleftrightarrow> status c \<noteq> 0 \<and> status c \<noteq> 1"

definition all_cases :: "payload \<Rightarrow> testcase list" where
  "all_cases res = concat (map cases (subtasks (payload_judge res)))"

subsection \<open>Example inputs\<close>

definition example_env :: env where
  "example_env =
     \<lparr>judge_token = ''233'',
      convertResult = (\<lambda>tid p. \<lparr>cr_score = 75, cr_time = 120, cr_memory = 2048,
                                 statusString = ''Accepted'', cr_result = ''ok''\<rparr>),
      type_text = (\<lambda>t. ''9''),
      resolvePath = (\<lambda>kind name. kind @ ''/'' @ name),
      readFileAsync = (\<lambda>path. if path = ''answer/a1'' then Inr [80, 75]
                              else Inl (ReadFileError path))\<rparr>"

definition example_state :: state where
  "example_state =
     \<lparr>socket_id = ''w1'', connected = True, pendingAckTaskObj = None,
      waitingForTask = False, pollLoops = 0, judgeQueue = [],
      judgeStateCache = Map.empty, JudgeState = Map.empty, timers = [], now = 0,
      trace = []\<rparr>"

definition example_task :: task where
  "example_task =
     \<lparr>content = \<lparr>taskId = ''t1'', testData = ''7'', type = Standard, priority = 5,
                 param = Some (StandardParam ''cpp'' ''int main(){}'' 1000 256 None None)\<rparr>,
      extraData = None\<rparr>"

definition example_entry :: queue_entry where
  "example_entry = \<lparr>data = example_task, entry_priority = 5\<rparr>"

definition example_polling :: state where
  "example_polling =
     example_state\<lparr>waitingForTask := True, pollLoops := 1, judgeQueue := [(example_task, 5)]\<rparr>"

definition example_dropped :: state where
  "example_dropped = example_polling\<lparr>connected := False\<rparr>"

definition example_pending :: state where
  "example_pending =
     example_state\<lparr>waitingForTask := True, pendingAckTaskObj := Some example_entry\<rparr>"

definition example_payload :: payload where
  "example_payload =
     \<lparr>payload_judge = \<lparr>subtasks =
        [\<lparr>cases = [\<lparr>status = 2\<rparr>, \<lparr>status = 1\<rparr>]\<rparr>,
         \<lparr>cases = [\<lparr>status = 3\<rparr>, \<lparr>status = 4\<rparr>]\<rparr>]\<rparr>\<rparr>"

definition example_report :: "report_type \<Rightarrow> report" where
  "example_report ty = \<lparr>report_taskId = ''t1'', report_type = ty, progress = example_payload\<rparr>"

definition example_running :: state where
  "example_running =
     example_state\<lparr>judgeStateCache :=
        [''t1'' \<mapsto> \<lparr>result = ''Running 3/4'', score = 75, time = 120, memory = 2048\<rparr>],
        now := 1000\<rparr>"

definition example_row :: judge_state where
  "example_row =
     \<lparr>task_id = ''t1'', code = ''a1'', language = ''cpp'', js_score = 0, pending = True,
      js_status = ''Waiting'', total_time = 0, max_memory = 0, js_result = ''-'',
      compilation = None\<rparr>"

definition example_tracked :: state where
  "example_tracked = example_state\<lparr>JudgeState := [''t1'' \<mapsto> example_row]\<rparr>"

definition example_problem :: "string \<Rightarrow> problem" where
  "example_problem ty =
     \<lparr>problem_id = 7, problem_type = ty, time_limit = 1000, memory_limit = 256,
      file_io = False, file_io_input_name = ''in'', file_io_output_name = ''out''\<rparr>"

section \<open>Properties\<close>

subsection \<open>The handlers, branch by branch\<close>

lemma map_of_redisZADD: "map_of (redisZADD sc member z) = (map_of z)(member \<mapsto> sc)"
  by (simp add: redisZADD_def update_conv')

lemma map_of_requeue:
  assumes "bzpopmax_reply z (Some (member, sc))"
  shows "map_of (redisZADD sc member (bzpopmax_remove (Some (member, sc)) z)) = map_of z"
proof -
  from assms have "map_of z member = Some sc"
    by (simp add: bzpopmax_reply_def)
  then have "(map_of z)(member \<mapsto> sc) = map_of z"
    by (simp add: map_upd_triv)
  then show ?thesis
    by (simp add: map_of_redisZADD bzpopmax_remove_def delete_conv')
qed

lemma resume_disconnected:
  assumes "\<not> connected s"
  shows "waitForTask_resume (Some (member, sc)) s =
           s\<lparr>pollLoops := pollLoops s - 1,
             judgeQueue := redisZADD sc member (judgeQueue s),
             trace := trace s @
               [Log Verbose (''Judge client '' @ socket_id s @
                             '' got task but disconnected re-pushing task to queue.''),
                RedisZADD sc member]\<rparr>"
  using assms
  by (simp add: waitForTask_resume_def waitForTask_loop_def poll_def push_def emit_def)

lemma resume_connected:
  assumes "connected s"
  shows "waitForTask_resume (Some (member, sc)) s =
           s\<lparr>pollLoops := pollLoops s - 1,
             pendingAckTaskObj := Some \<lparr>data = member, entry_priority = sc\<rparr>,
             trace := trace s @
               [Log Verbose (''Sending task '' @ taskId (content member) @
                             '' to judge client '' @ socket_id s @ ''.''),
                EmitOnTask member]\<rparr>"
  using assms
  by (simp add: waitForTask_resume_def waitForTask_loop_def poll_def push_def emit_def)

lemma disconnect_pending:
  assumes "pendingAckTaskObj s = Some ob"
  shows "disconnect reason s =
           s\<lparr>pendingAckTaskObj := None,
             judgeQueue := redisZADD (entry_priority ob) (data ob) (judgeQueue s),
             trace := trace s @
               [Log Info (''Judge client '' @ socket_id s @ '' disconnected, reason = '' @
                          reason @ ''.''),
                Log Warn (''Re-pushing task '' @ taskId (content (data ob)) @
                          '' to judge queue.''),
                RedisZADD (entry_priority ob) (data ob)]\<rparr>"
  using assms by (simp add: disconnect_def push_def emit_def Let_def)

lemma disconnect_idle:
  assumes "pendingAckTaskObj s = None"
  shows "disconnect reason s =
           s\<lparr>trace := trace s @
               [Log Info (''Judge client '' @ socket_id s @ '' disconnected, reason = '' @
                          reason @ ''.'')]\<rparr>"
  using assms by (simp add: disconnect_def push_def emit_def Let_def)

lemma disconnect_clears: "pendingAckTaskObj (disconnect reason s) = None"
  by (cases "pendingAckTaskObj s") (simp_all add: disconnect_pending disconnect_idle)

lemma step_PollReply:
  "step env (PollReply r) s =
     waitForTask_resume r (s\<lparr>judgeQueue := bzpopmax_remove r (judgeQueue s)\<rparr>)"
  by (simp add: step_def)

lemma step_Disconnect:
  "step env (Disconnect reason) s = disconnect reason (s\<lparr>connected := False\<rparr>)"
  by (simp add: step_def)

lemma waitForTask_waiting:
  assumes "token = judge_token env" and "waitingForTask s"
  shows "waitForTask env token s =
           s\<lparr>trace := trace s @
               [Ack, Log Verbose (''Judge client '' @ socket_id s @
                                  '' emitted waitForTask, but already waiting, ignoring.'')]\<rparr>"
  using assms by (simp add: waitForTask_def emit_def Let_def)

lemma waitForTask_idle:
  assumes "token = judge_token env" and "\<not> waitingForTask s" and "connected s"
  shows "waitForTask env token s =
           s\<lparr>waitingForTask := True, pollLoops := pollLoops s + 1,
             trace := trace s @
               [Ack, Log Verbose (''Judge client '' @ socket_id s @
                                  '' emitted waitForTask.'')]\<rparr>"
  using assms by (simp add: waitForTask_def waitForTask_loop_def emit_def Let_def)

lemma waitForTask_invalid:
  assumes "token \<noteq> judge_token env"
  shows "waitForTask env token s =
           s\<lparr>trace := trace s @ [Log Warn (''Judge client '' @ socket_id s @
                                   '' emitted waitForTask with invalid token.'')]\<rparr>"
  using assms by (simp add: waitForTask_def emit_def)

lemma update_absent: "k \<notin> fst ` set al \<Longrightarrow> AList.update k v al = al @ [(k, v)]"
  by (induction al) auto

lemma set_requeue:
  "set (redisZADD sc member (bzpopmax_remove (Some (member, sc)) z)) \<subseteq> insert (member, sc) (set z)"
proof -
  have "member \<notin> fst ` set (AList.delete member z)"
    by (rule delete_notin_dom)
  then have "redisZADD sc member (AList.delete member z) = AList.delete member z @ [(member, sc)]"
    by (simp add: redisZADD_def update_absent)
  moreover have "set (AList.delete member z) \<subseteq> set z"
    by (auto simp add: AList.delete_eq)
  ultimately show ?thesis
    by (auto simp add: bzpopmax_remove_def)
qed

lemma reply_after_requeue:
  assumes "bzpopmax_reply z (Some (member, sc))"
  shows "bzpopmax_reply (redisZADD sc member (bzpopmax_remove (Some (member, sc)) z))
           (Some (member, sc))"
proof -
  let ?z = "redisZADD sc member (bzpopmax_remove (Some (member, sc)) z)"
  from assms have le: "\<forall>e \<in> set z. snd e \<le> sc"
    by (simp add: bzpopmax_reply_def)
  have "map_of ?z member = Some sc"
    by (simp add: map_of_redisZADD)
  moreover have "\<forall>e \<in> set ?z. snd e \<le> sc"
    using le set_requeue [of sc member z] by auto
  ultimately show ?thesis
    by (simp add: bzpopmax_reply_def)
qed

lemma attempt_requeues:
  assumes r: "bzpopmax_reply (judgeQueue s) (Some (member, sc))"
  shows "\<exists>s'. run env (attempt_events env (member, sc) reason a) (on_connect sid s) = Some s'
           \<and> judgeQueue s' =
               redisZADD sc member (bzpopmax_remove (Some (member, sc)) (judgeQueue s))"
proof -
  let ?s0 = "on_connect sid s"
  let ?s1 = "waitForTask env (judge_token env) ?s0"
  have c0: "connected ?s0" and w0: "\<not> waitingForTask ?s0"
    and q0: "judgeQueue ?s0 = judgeQueue s"
    by (simp_all add: on_connect_def emit_def)
  have s1: "?s1 = ?s0\<lparr>waitingForTask := True, pollLoops := pollLoops ?s0 + 1,
              trace := trace ?s0 @
                [Ack, Log Verbose (''Judge client '' @ socket_id ?s0 @
                                   '' emitted waitForTask.'')]\<rparr>"
    using w0 c0 by (simp add: waitForTask_idle)
  have p1: "0 < pollLoops ?s1" and c1: "connected ?s1" and q1: "judgeQueue ?s1 = judgeQueue s"
    and n1: "pendingAckTaskObj ?s1 = None"
    by (simp_all add: s1 c0 q0) (simp add: on_connect_def emit_def)
  have e0: "enabled (WaitForTask (judge_token env)) ?s0"
    by (simp add: enabled_def c0)
  have st0: "step env (WaitForTask (judge_token env)) ?s0 = ?s1"
    by (simp add: step_def)
  show ?thesis
  proof (cases a)
    case BeforeDelivery
    let ?s2 = "step env (Disconnect reason) ?s1"
    have e1: "enabled (Disconnect reason) ?s1"
      by (simp add: enabled_def c1)
    have s2: "?s2 = (?s1\<lparr>connected := False\<rparr>)\<lparr>trace := trace ?s1 @
               [Log Info (''Judge client '' @ socket_id ?s1 @ '' disconnected, reason = '' @
                          reason @ ''.'')]\<rparr>"
      using n1 by (simp add: step_Disconnect disconnect_idle)
    have d2: "\<not> connected ?s2" and p2: "0 < pollLoops ?s2"
      and q2: "judgeQueue ?s2 = judgeQueue s"
      using p1 q1 by (simp_all add: s2)
    have e2: "enabled (PollReply (Some (member, sc))) ?s2"
      using p2 r by (simp add: enabled_def q2)
    have "\<not> connected (?s2\<lparr>judgeQueue := bzpopmax_remove (Some (member, sc)) (judgeQueue ?s2)\<rparr>)"
      using d2 by simp
    then have "judgeQueue (step env (PollReply (Some (member, sc))) ?s2) =
            redisZADD sc member (bzpopmax_remove (Some (member, sc)) (judgeQueue s))"
      by (simp add: step_PollReply resume_disconnected q2)
    with e0 e1 e2 BeforeDelivery show ?thesis
      by (simp add: attempt_events_def st0)
  next
    case BeforeAck
    let ?s2 = "step env (PollReply (Some (member, sc))) ?s1"
    have e1: "enabled (PollReply (Some (member, sc))) ?s1"
      using p1 r by (simp add: enabled_def q1)
    have "connected (?s1\<lparr>judgeQueue := bzpopmax_remove (Some (member, sc)) (judgeQueue ?s1)\<rparr>)"
      using c1 by simp
    then have s2: "?s2 =
        (?s1\<lparr>judgeQueue := bzpopmax_remove (Some (member, sc)) (judgeQueue ?s1)\<rparr>)
          \<lparr>pollLoops := pollLoops ?s1 - 1,
           pendingAckTaskObj := Some \<lparr>data = member, entry_priority = sc\<rparr>,
           trace := trace ?s1 @
             [Log Verbose (''Sending task '' @ taskId (content member) @
                           '' to judge client '' @ socket_id ?s1 @ ''.''),
              EmitOnTask member]\<rparr>"
      by (simp add: step_PollReply resume_connected)
    have c2: "connected ?s2"
      and n2: "pendingAckTaskObj ?s2 = Some \<lparr>data = member, entry_priority = sc\<rparr>"
      and q2: "judgeQueue ?s2 = bzpopmax_remove (Some (member, sc)) (judgeQueue s)"
      using c1 q1 by (simp_all add: s2)
    have e2: "enabled (Disconnect reason) ?s2"
      by (simp add: enabled_def c2)
    have "pendingAckTaskObj (?s2\<lparr>connected := False\<rparr>) =
            Some \<lparr>data = member, entry_priority = sc\<rparr>"
      using n2 by simp
    then have "judgeQueue (step env (Disconnect reason) ?s2) =
            redisZADD sc member (bzpopmax_remove (Some (member, sc)) (judgeQueue s))"
      by (simp add: step_Disconnect disconnect_pending q2)
    with e0 e1 e2 BeforeAck show ?thesis
      by (simp add: attempt_events_def st0)
  qed
qed

lemma attempts_requeue:
  assumes "bzpopmax_reply (judgeQueue s) (Some (member, sc))"
  shows "\<exists>s'. attempts env (member, sc) as s = Some s'
           \<and> map_of (judgeQueue s') = map_of (judgeQueue s)
           \<and> bzpopmax_reply (judgeQueue s') (Some (member, sc))"
  using assms
proof (induction as arbitrary: s)
  case Nil
  then show ?case by simp
next
  case (Cons x as)
  obtain sid reason a where x: "x = (sid, reason, a)"
    by (cases x) auto
  from attempt_requeues [OF Cons.prems, of env reason a sid]
  obtain s1 where run1: "run env (attempt_events env (member, sc) reason a) (on_connect sid s) = Some s1"
    and q1: "judgeQueue s1 =
               redisZADD sc member (bzpopmax_remove (Some (member, sc)) (judgeQueue s))"
    by blast
  have m1: "map_of (judgeQueue s1) = map_of (judgeQueue s)"
    using map_of_requeue [OF Cons.prems] by (simp add: q1)
  have r1: "bzpopmax_reply (judgeQueue s1) (Some (member, sc))"
    using reply_after_requeue [OF Cons.prems] by (simp add: q1)
  from Cons.IH [OF r1] obtain s' where "attempts env (member, sc) as s1 = Some s'"
    and "map_of (judgeQueue s') = map_of (judgeQueue s1)"
    and "bzpopmax_reply (judgeQueue s') (Some (member, sc))"
    by blast
  with run1 m1 x show ?case by simp
qed

subsection \<open>Requeue after a disconnect\<close>

text \<open>
  Claim C1. An entry that a poll has taken from the queue goes back with the same task
  and the same priority on both requeue paths: when the invocation resumes with the
  entry on a socket that is already disconnected (nothing is recorded as pending), and
  when the \<^verbatim>\<open>disconnect\<close> handler finds the entry in \<open>pendingAckTaskObj\<close> (which it then
  clears). Taken together with the removal by \<^verbatim>\<open>BZPOPMAX\<close>, a dispatch attempt that ends
  in a disconnect before the acknowledgement leaves the sorted set as it was before the
  poll, and the poll may answer with the same entry again; so it is after any number of
  such attempts in a row.
\<close>

theorem requeue_restores_entry:
  "(\<not> connected s \<longrightarrow>
      judgeQueue (waitForTask_resume (Some (member, sc)) s) = redisZADD sc member (judgeQueue s)
    \<and> map_of (judgeQueue (waitForTask_resume (Some (member, sc)) s)) member = Some sc
    \<and> pendingAckTaskObj (waitForTask_resume (Some (member, sc)) s) = pendingAckTaskObj s)
   \<and> (pendingAckTaskObj s = Some ob \<longrightarrow>
      judgeQueue (disconnect reason s) =
        redisZADD (entry_priority ob) (data ob) (judgeQueue s)
    \<and> map_of (judgeQueue (disconnect reason s)) (data ob) = Some (entry_priority ob)
    \<and> pendingAckTaskObj (disconnect reason s) = None)
   \<and> (bzpopmax_reply (judgeQueue s) (Some (member, sc)) \<longrightarrow>
        (\<not> connected s \<longrightarrow>
           map_of (judgeQueue (step env (PollReply (Some (member, sc))) s)) =
             map_of (judgeQueue s))
      \<and> (connected s \<longrightarrow>
           pendingAckTaskObj (step env (PollReply (Some (member, sc))) s) =
             Some \<lparr>data = member, entry_priority = sc\<rparr>
         \<and> map_of (judgeQueue (step env (Disconnect reason)
                     (step env (PollReply (Some (member, sc))) s))) =
             map_of (judgeQueue s))
      \<and> (\<exists>s'. attempts env (member, sc) as s = Some s'
            \<and> map_of (judgeQueue s') = map_of (judgeQueue s)
            \<and> bzpopmax_reply (judgeQueue s') (Some (member, sc))))"
proof (intro conjI impI)
  assume d: "\<not> connected s"
  show "judgeQueue (waitForTask_resume (Some (member, sc)) s) =
          redisZADD sc member (judgeQueue s)"
    and "pendingAckTaskObj (waitForTask_resume (Some (member, sc)) s) = pendingAckTaskObj s"
    and "map_of (judgeQueue (waitForTask_resume (Some (member, sc)) s)) member = Some sc"
    using d by (simp_all add: resume_disconnected map_of_redisZADD)
next
  assume p: "pendingAckTaskObj s = Some ob"
  show "judgeQueue (disconnect reason s) =
          redisZADD (entry_priority ob) (data ob) (judgeQueue s)"
    and "pendingAckTaskObj (disconnect reason s) = None"
    and "map_of (judgeQueue (disconnect reason s)) (data ob) = Some (entry_priority ob)"
    using p by (simp_all add: disconnect_pending map_of_redisZADD)
next
  assume r: "bzpopmax_reply (judgeQueue s) (Some (member, sc))" and d: "\<not> connected s"
  have "judgeQueue (step env (PollReply (Some (member, sc))) s) =
          redisZADD sc member (bzpopmax_remove (Some (member, sc)) (judgeQueue s))"
    using d by (simp add: step_PollReply resume_disconnected)
  then show "map_of (judgeQueue (step env (PollReply (Some (member, sc))) s)) =
               map_of (judgeQueue s)"
    using map_of_requeue [OF r] by simp
next
  assume r: "bzpopmax_reply (judgeQueue s) (Some (member, sc))" and c: "connected s"
  let ?s1 = "step env (PollReply (Some (member, sc))) s"
  have s1: "?s1 = s\<lparr>pollLoops := pollLoops s - 1,
                     pendingAckTaskObj := Some \<lparr>data = member, entry_priority = sc\<rparr>,
                     judgeQueue := bzpopmax_remove (Some (member, sc)) (judgeQueue s),
                     trace := trace s @
                       [Log Verbose (''Sending task '' @ taskId (content member) @
                                     '' to judge client '' @ socket_id s @ ''.''),
                        EmitOnTask member]\<rparr>"
    using c by (simp add: step_PollReply resume_connected)
  show "pendingAckTaskObj ?s1 = Some \<lparr>data = member, entry_priority = sc\<rparr>"
    by (simp add: s1)
  have "judgeQueue (step env (Disconnect reason) ?s1) =
          redisZADD sc member (bzpopmax_remove (Some (member, sc)) (judgeQueue s))"
    by (simp add: s1 step_Disconnect disconnect_pending)
  then show "map_of (judgeQueue (step env (Disconnect reason) ?s1)) = map_of (judgeQueue s)"
    using map_of_requeue [OF r] by simp
next
  assume "bzpopmax_reply (judgeQueue s) (Some (member, sc))"
  then show "\<exists>s'. attempts env (member, sc) as s = Some s'
      \<and> map_of (judgeQueue s') = map_of (judgeQueue s)
      \<and> bzpopmax_reply (judgeQueue s') (Some (member, sc))"
    by (rule attempts_requeue)
qed

theorem requeue_restores_entry_witness:
  "bzpopmax_reply (judgeQueue example_polling) (Some (example_task, 5))
   \<and> connected example_polling
   \<and> map_of (judgeQueue (step example_env (Disconnect ''transport close'')
               (step example_env (PollReply (Some (example_task, 5))) example_polling)))
        example_task = Some 5
   \<and> bzpopmax_reply (judgeQueue example_dropped) (Some (example_task, 5))
   \<and> \<not> connected example_dropped
   \<and> map_of (judgeQueue (step example_env (PollReply (Some (example_task, 5)))
               example_dropped)) example_task = Some 5
   \<and> pendingAckTaskObj example_pending = Some example_entry
   \<and> map_of (judgeQueue (disconnect ''transport close'' example_pending)) example_task = Some 5
   \<and> (\<exists>s'. attempts example_env (example_task, 5)
              [(''w2'', ''transport close'', BeforeAck),
               (''w3'', ''ping timeout'', BeforeDelivery)] example_polling = Some s'
          \<and> map_of (judgeQueue s') example_task = Some 5)"
proof -
  have r: "bzpopmax_reply (judgeQueue example_polling) (Some (example_task, 5))"
    by (simp add: bzpopmax_reply_def example_polling_def example_state_def)
  have c: "connected example_polling"
    by (simp add: example_polling_def example_state_def)
  have m: "map_of (judgeQueue example_polling) example_task = Some 5"
    by (simp add: example_polling_def example_state_def)
  have r': "bzpopmax_reply (judgeQueue example_dropped) (Some (example_task, 5))"
    using r by (simp add: example_dropped_def)
  have d: "\<not> connected example_dropped"
    by (simp add: example_dropped_def)
  have m': "map_of (judgeQueue example_dropped) example_task = Some 5"
    using m by (simp add: example_dropped_def)
  have p: "pendingAckTaskObj example_pending = Some example_entry"
    by (simp add: example_pending_def)
  have e: "data example_entry = example_task" "entry_priority example_entry = 5"
    by (simp_all add: example_entry_def)
  note at_polling = requeue_restores_entry [where s = example_polling
      and member = example_task and sc = 5 and ob = example_entry
      and reason = "''transport close''" and env = example_env
      and as = "[(''w2'', ''transport close'', BeforeAck),
                 (''w3'', ''ping timeout'', BeforeDelivery)]"]
  have "map_of (judgeQueue (step example_env (Disconnect ''transport close'')
               (step example_env (PollReply (Some (example_task, 5))) example_polling)))
        example_task = Some 5"
    using at_polling r c m by metis
  moreover have "map_of (judgeQueue (step example_env (PollReply (Some (example_task, 5)))
               example_dropped)) example_task = Some 5"
    using requeue_restores_entry [where s = example_dropped and member = example_task
            and sc = 5 and env = example_env] r' d m' by metis
  moreover have "map_of (judgeQueue (disconnect ''transport close'' example_pending))
        example_task = Some 5"
    using requeue_restores_entry [where s = example_pending and ob = example_entry
            and reason = "''transport close''"] p e by metis
  moreover have "\<exists>s'. attempts example_env (example_task, 5)
              [(''w2'', ''transport close'', BeforeAck),
               (''w3'', ''ping timeout'', BeforeDelivery)] example_polling = Some s'
          \<and> map_of (judgeQueue s') example_task = Some 5"
    using at_polling r m by metis
  ultimately show ?thesis
    using r c r' d p by simp
qed

lemma pushes_disconnect_idle:
  assumes "pendingAckTaskObj s = None"
  shows "pushes (disconnect reason s) = pushes s"
    and "judgeQueue (disconnect reason s) = judgeQueue s"
    and "pendingAckTaskObj (disconnect reason s) = None"
  using assms by (simp_all add: disconnect_idle pushes_def is_push_def)

lemma pushes_disconnect_pending:
  assumes "pendingAckTaskObj s = Some ob"
  shows "pushes (disconnect reason s) = pushes s @ [RedisZADD (entry_priority ob) (data ob)]"
  using assms by (simp add: disconnect_pending pushes_def is_push_def)

lemma fold_disconnect_idle:
  assumes "pendingAckTaskObj s = None"
  shows "pushes (fold disconnect rs s) = pushes s
       \<and> judgeQueue (fold disconnect rs s) = judgeQueue s
       \<and> pendingAckTaskObj (fold disconnect rs s) = None"
  using assms
proof (induction rs arbitrary: s)
  case Nil
  then show ?case by simp
next
  case (Cons r rs)
  from Cons.IH [OF pushes_disconnect_idle(3) [OF Cons.prems, of r]]
       pushes_disconnect_idle(1,2) [OF Cons.prems, of r]
  show ?case by simp
qed

text \<open>
  Claim C9. The \<^verbatim>\<open>disconnect\<close> handler sends a \<^verbatim>\<open>ZADD\<close> only when \<open>pendingAckTaskObj\<close>
  holds an entry, sends exactly one then, for that entry, and leaves
  \<open>pendingAckTaskObj\<close> empty in any case. Any number of further invocations on the
  same session therefore send no \<^verbatim>\<open>ZADD\<close> and leave the queue as the first invocation
  left it.
\<close>

theorem disconnect_requeues_once:
  "pendingAckTaskObj (disconnect reason s) = None
   \<and> (pendingAckTaskObj s = None \<longrightarrow>
        pushes (disconnect reason s) = pushes s
      \<and> judgeQueue (disconnect reason s) = judgeQueue s)
   \<and> (\<forall>ob. pendingAckTaskObj s = Some ob \<longrightarrow>
        pushes (disconnect reason s) =
          pushes s @ [RedisZADD (entry_priority ob) (data ob)])
   \<and> pushes (fold disconnect rs (disconnect reason s)) = pushes (disconnect reason s)
   \<and> judgeQueue (fold disconnect rs (disconnect reason s)) = judgeQueue (disconnect reason s)
   \<and> pendingAckTaskObj (fold disconnect rs (disconnect reason s)) = None"
proof -
  have c: "pendingAckTaskObj (disconnect reason s) = None"
    by (rule disconnect_clears)
  show ?thesis
    using c fold_disconnect_idle [OF c, of rs]
    by (simp add: pushes_disconnect_idle pushes_disconnect_pending)
qed

theorem disconnect_requeues_once_witness:
  "pendingAckTaskObj example_state = None
   \<and> pushes (disconnect ''transport close'' example_state) = []
   \<and> pendingAckTaskObj example_pending = Some example_entry
   \<and> pushes (fold disconnect [''ping timeout'', ''transport close'']
        (disconnect ''transport close'' example_pending)) = [RedisZADD 5 example_task]"
proof -
  have n: "pendingAckTaskObj example_state = None" and e: "pushes example_state = []"
    by (simp_all add: example_state_def pushes_def)
  have p: "pendingAckTaskObj example_pending = Some example_entry"
    and e': "pushes example_pending = []"
    by (simp_all add: example_pending_def example_state_def pushes_def)
  have d: "data example_entry = example_task" "entry_priority example_entry = 5"
    by (simp_all add: example_entry_def)
  have "pushes (disconnect ''transport close'' example_state) = []"
    using disconnect_requeues_once [of "''transport close''" example_state "[]"] n e
    by simp
  moreover have "pushes (fold disconnect [''ping timeout'', ''transport close'']
        (disconnect ''transport close'' example_pending)) = [RedisZADD 5 example_task]"
    using disconnect_requeues_once [of "''transport close''" example_pending
            "[''ping timeout'', ''transport close'']"] p e' d
    by simp
  ultimately show ?thesis
    using n p by simp
qed

subsection \<open>Duplicate \<^verbatim>\<open>waitForTask\<close> requests\<close>

lemma session_inv_waitForTask:
  assumes "session_inv s" and "connected s"
  shows "session_inv (waitForTask env token s)"
proof (cases "token = judge_token env")
  case False
  then show ?thesis using assms by (simp add: waitForTask_invalid session_inv_def)
next
  case True
  show ?thesis
  proof (cases "waitingForTask s")
    case True
    with \<open>token = judge_token env\<close> assms show ?thesis
      by (simp add: waitForTask_waiting session_inv_def)
  next
    case False
    with \<open>token = judge_token env\<close> assms show ?thesis
      by (auto simp add: waitForTask_idle session_inv_def)
  qed
qed

lemma session_inv_resume:
  assumes "session_inv s" and "0 < pollLoops s"
  shows "session_inv (waitForTask_resume r (s\<lparr>judgeQueue := z\<rparr>))"
  using assms
  by (cases r)
     (simp_all add: session_inv_def waitForTask_resume_def waitForTask_loop_def poll_def
        push_def emit_def split: prod.splits)

lemma session_inv_acked:
  "session_inv s \<Longrightarrow> pendingAckTaskObj s \<noteq> None \<Longrightarrow> session_inv (onTask_acked t s)"
  by (auto simp add: session_inv_def onTask_acked_def emit_def)

lemma session_inv_disconnect:
  "session_inv s \<Longrightarrow> session_inv (disconnect reason (s\<lparr>connected := False\<rparr>))"
  by (cases "pendingAckTaskObj s")
     (auto simp add: session_inv_def disconnect_def push_def emit_def Let_def)

lemma session_reportProgress:
  "pollLoops (reportProgress env token msg s) = pollLoops s
   \<and> waitingForTask (reportProgress env token msg s) = waitingForTask s
   \<and> pendingAckTaskObj (reportProgress env token msg s) = pendingAckTaskObj s
   \<and> connected (reportProgress env token msg s) = connected s"
  by (cases "report_type msg")
     (simp_all add: reportProgress_def emit_def cache_set_def setTimeout_def Let_def)

lemma session_reportResult:
  "pollLoops (reportResult env token msg s) = pollLoops s
   \<and> waitingForTask (reportResult env token msg s) = waitingForTask s
   \<and> pendingAckTaskObj (reportResult env token msg s) = pendingAckTaskObj s
   \<and> connected (reportResult env token msg s) = connected s"
  by (cases "report_type msg"; cases "JudgeState s (report_taskId msg)")
     (simp_all add: reportResult_def emit_def save_def Let_def)

lemma session_judge:
  "pollLoops (snd (judge env js pr prio s)) = pollLoops s
   \<and> waitingForTask (snd (judge env js pr prio s)) = waitingForTask s
   \<and> pendingAckTaskObj (snd (judge env js pr prio s)) = pendingAckTaskObj s
   \<and> connected (snd (judge env js pr prio s)) = connected s"
  by (simp add: judge_def push_def emit_def Let_def split: sum.splits)

lemma session_run_timers:
  "pollLoops (run_timers t s) = pollLoops s
   \<and> waitingForTask (run_timers t s) = waitingForTask s
   \<and> pendingAckTaskObj (run_timers t s) = pendingAckTaskObj s
   \<and> connected (run_timers t s) = connected s"
  by (simp add: run_timers_def)

lemma session_inv_step:
  assumes "session_inv s" and "enabled ev s"
  shows "session_inv (step env ev s)"
proof (cases ev)
  case (WaitForTask token)
  with assms show ?thesis
    by (simp add: step_def enabled_def session_inv_waitForTask)
next
  case (PollReply r)
  with assms show ?thesis
    by (simp add: step_def enabled_def session_inv_resume)
next
  case TaskAcked
  with assms show ?thesis
    by (auto simp add: step_def enabled_def session_inv_acked)
next
  case (Disconnect reason)
  with assms show ?thesis
    by (simp add: step_def session_inv_disconnect)
next
  case (ReportProgress token msg)
  with assms show ?thesis
    by (simp add: step_def session_inv_def session_reportProgress)
next
  case (ReportResult token msg)
  with assms show ?thesis
    by (simp add: step_def session_inv_def session_reportResult)
next
  case (Submit js pr prio)
  with assms show ?thesis
    by (simp add: step_def session_inv_def session_judge)
next
  case (Clock t)
  with assms show ?thesis
    by (simp add: step_def session_inv_def session_run_timers)
qed

lemma session_inv_run:
  "session_inv s0 \<Longrightarrow> run env evs s0 = Some s \<Longrightarrow> session_inv s"
proof (induction evs arbitrary: s0)
  case Nil
  then show ?case by simp
next
  case (Cons ev evs)
  from Cons.prems(2) have en: "enabled ev s0" and r: "run env evs (step env ev s0) = Some s"
    by (simp_all split: if_splits)
  from Cons.IH [OF session_inv_step [OF Cons.prems(1) en] r] show ?case .
qed

lemma session_inv_fresh: "fresh s \<Longrightarrow> session_inv s"
  by (simp add: fresh_def session_inv_def)

text \<open>
  Claim C4, as the code has it. The handler calls \<^verbatim>\<open>ack()\<close> before it looks at
  \<open>waitingForTask\<close>, so a request with the valid token is acknowledged in either case.
  On a session that is already waiting the request does nothing else: no field of the
  state changes and no poll is started. On a connected session that is not waiting, no
  invocation is suspended in a poll, and the request sets \<open>waitingForTask\<close> and
  suspends exactly one. In every state a connection can reach, at most one invocation
  is suspended after the request.
\<close>

theorem waitForTask_one_poll_loop:
  assumes "fresh s0" and "run env evs s0 = Some s"
      and "token = judge_token env" and "connected s"
  shows "(waitingForTask s \<longrightarrow>
            waitForTask env token s =
              s\<lparr>trace := trace s @
                  [Ack, Log Verbose (''Judge client '' @ socket_id s @
                     '' emitted waitForTask, but already waiting, ignoring.'')]\<rparr>)
       \<and> (\<not> waitingForTask s \<longrightarrow>
            pollLoops s = 0
          \<and> waitForTask env token s =
              s\<lparr>waitingForTask := True, pollLoops := 1,
                trace := trace s @
                  [Ack, Log Verbose (''Judge client '' @ socket_id s @
                     '' emitted waitForTask.'')]\<rparr>)
       \<and> pollLoops (waitForTask env token s) \<le> 1"
proof -
  have inv: "session_inv s"
    using assms(1,2) by (blast intro: session_inv_run session_inv_fresh)
  have idle: "pollLoops s = 0" if "\<not> waitingForTask s"
    using inv that by (auto simp add: session_inv_def)
  have "session_inv (waitForTask env token s)"
    using inv assms(4) by (rule session_inv_waitForTask)
  then have le: "pollLoops (waitForTask env token s) \<le> 1"
    by (simp add: session_inv_def)
  show ?thesis
    using assms(3,4) idle le
    by (auto simp add: waitForTask_waiting waitForTask_idle)
qed

theorem waitForTask_one_poll_loop_witness:
  "fresh example_state
   \<and> run example_env [] example_state = Some example_state
   \<and> run example_env [WaitForTask ''233''] example_state =
       Some (waitForTask example_env ''233'' example_state)
   \<and> ''233'' = judge_token example_env
   \<and> connected example_state
   \<and> \<not> waitingForTask example_state
   \<and> waitingForTask (waitForTask example_env ''233'' example_state)
   \<and> pollLoops (waitForTask example_env ''233'' example_state) = 1
   \<and> pollLoops (waitForTask example_env ''233''
        (waitForTask example_env ''233'' example_state)) = 1
   \<and> trace (waitForTask example_env ''233'' (waitForTask example_env ''233'' example_state)) =
       [Ack, Log Verbose ''Judge client w1 emitted waitForTask.'',
        Ack, Log Verbose ''Judge client w1 emitted waitForTask, but already waiting, ignoring.'']"
proof -
  let ?s1 = "waitForTask example_env ''233'' example_state"
  have f: "fresh example_state"
    by (simp add: fresh_def example_state_def)
  have t: "''233'' = judge_token example_env"
    by (simp add: example_env_def)
  have c: "connected example_state" and w: "\<not> waitingForTask example_state"
    by (simp_all add: example_state_def)
  have r0: "run example_env [] example_state = Some example_state"
    by simp
  have r1: "run example_env [WaitForTask ''233''] example_state = Some ?s1"
    using c by (simp add: enabled_def step_def)
  from waitForTask_one_poll_loop [OF f r0 t c] w
  have s1: "?s1 = example_state\<lparr>waitingForTask := True, pollLoops := 1,
                trace := trace example_state @
                  [Ack, Log Verbose (''Judge client '' @ socket_id example_state @
                     '' emitted waitForTask.'')]\<rparr>"
    by blast
  have c1: "connected ?s1" and w1: "waitingForTask ?s1" and p1: "pollLoops ?s1 = 1"
    using c by (simp_all add: s1)
  from waitForTask_one_poll_loop [OF f r1 t c1] w1
  have s2: "waitForTask example_env ''233'' ?s1 =
              ?s1\<lparr>trace := trace ?s1 @
                  [Ack, Log Verbose (''Judge client '' @ socket_id ?s1 @
                     '' emitted waitForTask, but already waiting, ignoring.'')]\<rparr>"
    by blast
  have p2: "pollLoops (waitForTask example_env ''233'' ?s1) = 1"
    by (simp add: s2 p1)
  have tr: "trace (waitForTask example_env ''233'' ?s1) =
       [Ack, Log Verbose ''Judge client w1 emitted waitForTask.'',
        Ack, Log Verbose ''Judge client w1 emitted waitForTask, but already waiting, ignoring.'']"
    by (simp add: s2, simp only: s1, simp add: example_state_def)
  show ?thesis
    using f r0 r1 t c w w1 p1 p2 tr by simp
qed


text \<open>
  Claim C4 as written says that the duplicate request is not acknowledged. On a session
  that is already waiting, the request with the valid token is acknowledged.
\<close>

theorem waitForTask_duplicate_acknowledged:
  "''233'' = judge_token example_env
   \<and> waitingForTask example_polling
   \<and> Ack \<in> set (trace (waitForTask example_env ''233'' example_polling))"
  by (simp add: waitForTask_def emit_def Let_def example_env_def example_polling_def
      example_state_def)

subsection \<open>Requests with a wrong token\<close>

text \<open>
  Claim C7. A \<^verbatim>\<open>waitForTask\<close>, \<^verbatim>\<open>reportProgress\<close> or \<^verbatim>\<open>reportResult\<close> message whose token
  differs from the configured one leaves the state as it was but for one warning in the
  log: the session, the queue, the cache, the table and the timers are unchanged, and
  neither an acknowledgement nor any other call goes out.
\<close>

theorem invalid_token_dropped:
  assumes "token \<noteq> judge_token env"
  shows "waitForTask env token s =
           s\<lparr>trace := trace s @ [Log Warn (''Judge client '' @ socket_id s @
                                   '' emitted waitForTask with invalid token.'')]\<rparr>
       \<and> reportProgress env token msg s =
           s\<lparr>trace := trace s @ [Log Warn (''Judge client '' @ socket_id s @
                                   '' emitted reportProgress with invalid token.'')]\<rparr>
       \<and> reportResult env token msg s =
           s\<lparr>trace := trace s @ [Log Warn (''Judge client '' @ socket_id s @
                                   '' emitted reportResult with invalid token.'')]\<rparr>"
  using assms by (simp add: waitForTask_def reportProgress_def reportResult_def emit_def)

theorem invalid_token_dropped_witness:
  "''bad'' \<noteq> judge_token example_env
   \<and> waitForTask example_env ''bad'' example_state =
       example_state\<lparr>trace :=
         [Log Warn ''Judge client w1 emitted waitForTask with invalid token.'']\<rparr>
   \<and> reportProgress example_env ''bad'' (example_report Progress) example_state =
       example_state\<lparr>trace :=
         [Log Warn ''Judge client w1 emitted reportProgress with invalid token.'']\<rparr>
   \<and> reportResult example_env ''bad'' (example_report Finished) example_state =
       example_state\<lparr>trace :=
         [Log Warn ''Judge client w1 emitted reportResult with invalid token.'']\<rparr>"
proof -
  have t: "''bad'' \<noteq> judge_token example_env"
    by (simp add: example_env_def)
  show ?thesis
    using t invalid_token_dropped [OF t, of example_state "example_report Progress"]
          invalid_token_dropped [OF t, of example_state "example_report Finished"]
    by (simp add: example_state_def)
qed

subsection \<open>Progress reports\<close>

lemma fold_count_case:
  "fold count_case cs (f, t) = (f + length (filter finished cs), t + length cs)"
  by (induction cs arbitrary: f t) (auto simp: count_case_def isPending_def finished_def)

lemma fold_subtasks:
  "fold (\<lambda>subtask acc. fold count_case (cases subtask) acc) sts (f, t) =
     (f + length (filter finished (concat (map cases sts))), t + length (concat (map cases sts)))"
  by (induction sts arbitrary: f t) (auto simp: fold_count_case)

lemma count_cases_eq:
  "count_cases res = (length (filter finished (all_cases res)), length (all_cases res))"
  by (simp add: count_cases_def all_cases_def fold_subtasks)

text \<open>
  Claim C3. A \<^verbatim>\<open>Progress\<close> report with the valid token sets the cache entry of its task
  to the snapshot whose \<open>result\<close> is \<^verbatim>\<open>Running f/n\<close>, with \<open>n\<close> the number of cases of
  all subtasks and \<open>f\<close> the number of those whose status is neither 0 nor 1, and whose
  score, time and memory are those of \<open>convertResult\<close>. With three of four cases
  finished the string is \<^verbatim>\<open>Running 3/4\<close>.
\<close>

theorem reportProgress_Progress_cache:
  assumes "token = judge_token env" and "report_type msg = Progress"
  shows "judgeStateCache (reportProgress env token msg s) (report_taskId msg) =
           Some \<lparr>result = ''Running '' @
                          decimal (length (filter finished (all_cases (progress msg)))) @
                          ''/'' @ decimal (length (all_cases (progress msg))),
                 score = cr_score (convertResult env (report_taskId msg) (progress msg)),
                 time = cr_time (convertResult env (report_taskId msg) (progress msg)),
                 memory = cr_memory (convertResult env (report_taskId msg) (progress msg))\<rparr>"
  using assms
  by (simp add: reportProgress_def Let_def emit_def cache_set_def
      getRunningTaskStatusString_def count_cases_eq)

theorem reportProgress_Progress_cache_witness:
  "''233'' = judge_token example_env
   \<and> report_type (example_report Progress) = Progress
   \<and> length (filter finished (all_cases (progress (example_report Progress)))) = 3
   \<and> length (all_cases (progress (example_report Progress))) = 4
   \<and> judgeStateCache (reportProgress example_env ''233'' (example_report Progress)
        example_state) ''t1'' =
       Some \<lparr>result = ''Running 3/4'', score = 75, time = 120, memory = 2048\<rparr>"
proof -
  have t: "''233'' = judge_token example_env"
    by (simp add: example_env_def)
  have p: "report_type (example_report Progress) = Progress"
    by (simp add: example_report_def)
  have n: "length (filter finished (all_cases (progress (example_report Progress)))) = 3"
    "length (all_cases (progress (example_report Progress))) = 4"
    by (simp_all add: example_report_def example_payload_def all_cases_def finished_def)
  have d: "decimal 3 = ''3''" "decimal 4 = ''4''"
    by (simp_all add: decimal.simps)
  have i: "report_taskId (example_report Progress) = ''t1''"
    by (simp add: example_report_def)
  have c: "convertResult example_env ''t1'' (progress (example_report Progress)) =
             \<lparr>cr_score = 75, cr_time = 120, cr_memory = 2048,
              statusString = ''Accepted'', cr_result = ''ok''\<rparr>"
    by (simp add: example_env_def)
  show ?thesis
    using reportProgress_Progress_cache [OF t p, of example_state] t p n
    by (simp add: n d i c)
qed

lemma fold_timers:
  "fold (\<lambda>(due, tid) c. if due \<le> t then c(tid := None) else c) ts c k =
     (if \<exists>due. (due, k) \<in> set ts \<and> due \<le> t then None else c k)"
  by (induction ts arbitrary: c) (auto split: if_splits)

lemma run_timers_cache:
  "judgeStateCache (run_timers t s) k =
     (if \<exists>due. (due, k) \<in> set (timers s) \<and> due \<le> t then None else judgeStateCache s k)"
  by (simp add: run_timers_def fold_timers)

lemma reportProgress_Started:
  assumes "token = judge_token env" and "report_type msg = Started"
  shows "reportProgress env token msg s =
           s\<lparr>judgeStateCache := (judgeStateCache s)(report_taskId msg \<mapsto>
                \<lparr>result = ''Compiling'', score = 0, time = 0, memory = 0\<rparr>),
             trace := trace s @
               [Log Verbose (''Got progress from progress exchange, id: '' @ report_taskId msg),
                CreateTask (report_taskId msg)]\<rparr>"
  using assms by (simp add: reportProgress_def emit_def cache_set_def Let_def)

lemma reportProgress_Finished:
  assumes "token = judge_token env" and "report_type msg = Finished"
  shows "reportProgress env token msg s =
           s\<lparr>timers := timers s @ [(now s + 5000, report_taskId msg)],
             trace := trace s @
               [Log Verbose (''Got progress from progress exchange, id: '' @ report_taskId msg),
                UpdateResult (report_taskId msg) (progress msg)]\<rparr>"
  using assms by (simp add: reportProgress_def emit_def setTimeout_def Let_def)

lemma reportProgress_Reported:
  assumes "token = judge_token env" and "report_type msg = Reported"
  shows "reportProgress env token msg s =
           s\<lparr>trace := trace s @
               [Log Verbose (''Got progress from progress exchange, id: '' @ report_taskId msg),
                CleanupProgress (report_taskId msg)]\<rparr>"
  using assms by (simp add: reportProgress_def emit_def Let_def)

lemma cache_reportProgress:
  "judgeStateCache s k = Some v \<Longrightarrow> judgeStateCache (reportProgress env token msg s) k \<noteq> None"
  by (cases "report_type msg")
     (simp_all add: reportProgress_def emit_def cache_set_def setTimeout_def Let_def)

lemma cache_reportResult:
  "judgeStateCache (reportResult env token msg s) = judgeStateCache s"
  by (cases "report_type msg"; cases "JudgeState s (report_taskId msg)")
     (simp_all add: reportResult_def emit_def save_def Let_def)

lemma cache_waitForTask:
  "judgeStateCache (waitForTask env token s) = judgeStateCache s"
  by (simp add: waitForTask_def waitForTask_loop_def emit_def Let_def)

lemma cache_resume:
  "judgeStateCache (waitForTask_resume r s) = judgeStateCache s"
  by (cases r)
     (simp_all add: waitForTask_resume_def waitForTask_loop_def poll_def push_def emit_def
        split: prod.splits)

lemma cache_disconnect:
  "judgeStateCache (disconnect reason s) = judgeStateCache s"
  by (cases "pendingAckTaskObj s") (simp_all add: disconnect_def push_def emit_def Let_def)

lemma cache_judge:
  "judgeStateCache (snd (judge env js pr prio s)) = judgeStateCache s"
  by (simp add: judge_def push_def emit_def Let_def split: sum.splits)

lemma cache_kept_by_handlers:
  assumes "judgeStateCache s k = Some v" and "\<forall>t. ev \<noteq> Clock t"
  shows "judgeStateCache (step env ev s) k \<noteq> None"
proof (cases ev)
  case (ReportProgress token msg)
  with assms(1) show ?thesis by (simp add: step_def cache_reportProgress)
next
  case TaskAcked
  with assms(1) show ?thesis
    by (cases "pendingAckTaskObj s") (simp_all add: step_def onTask_acked_def emit_def)
next
  case (Clock t)
  with assms(2) show ?thesis by simp
qed (use assms(1) in \<open>simp_all add: step_def cache_waitForTask cache_resume cache_disconnect
       cache_reportResult cache_judge\<close>)

lemma timers_reportProgress:
  assumes "token \<noteq> judge_token env \<or> report_type msg \<noteq> Finished"
  shows "timers (reportProgress env token msg s) = timers s"
  using assms
  by (cases "report_type msg")
     (simp_all add: reportProgress_def emit_def cache_set_def Let_def)

lemma timers_reportResult:
  "timers (reportResult env token msg s) = timers s"
  by (cases "report_type msg"; cases "JudgeState s (report_taskId msg)")
     (simp_all add: reportResult_def emit_def save_def Let_def)

lemma timers_waitForTask:
  "timers (waitForTask env token s) = timers s"
  by (simp add: waitForTask_def waitForTask_loop_def emit_def Let_def)

lemma timers_resume:
  "timers (waitForTask_resume r s) = timers s"
  by (cases r)
     (simp_all add: waitForTask_resume_def waitForTask_loop_def poll_def push_def emit_def
        split: prod.splits)

lemma timers_disconnect:
  "timers (disconnect reason s) = timers s"
  by (cases "pendingAckTaskObj s") (simp_all add: disconnect_def push_def emit_def Let_def)

lemma timers_judge:
  "timers (snd (judge env js pr prio s)) = timers s"
  by (simp add: judge_def push_def emit_def Let_def split: sum.splits)

lemma timers_kept_by_handlers:
  assumes "\<forall>t. ev \<noteq> Clock t"
      and "\<forall>tok m. ev = ReportProgress tok m \<longrightarrow>
             tok \<noteq> judge_token env \<or> report_type m \<noteq> Finished"
  shows "timers (step env ev s) = timers s"
proof (cases ev)
  case (ReportProgress token msg)
  with assms(2) have "token \<noteq> judge_token env \<or> report_type msg \<noteq> Finished"
    by simp
  with ReportProgress show ?thesis
    by (simp add: step_def timers_reportProgress)
next
  case TaskAcked
  then show ?thesis
    by (cases "pendingAckTaskObj s") (simp_all add: step_def onTask_acked_def emit_def)
next
  case (Clock t)
  with assms(1) show ?thesis by simp
qed (simp_all add: step_def timers_waitForTask timers_resume timers_disconnect
       timers_reportResult timers_judge)

lemma timers_run_timers: "set (timers (run_timers t s)) \<subseteq> set (timers s)"
  by (auto simp add: run_timers_def)

text \<open>
  Claim C5. A \<^verbatim>\<open>Started\<close> report with the valid token notifies the pusher of the new task
  and sets the cache entry of its task to
  \<^verbatim>\<open>{result: 'Compiling', score: 0, time: 0, memory: 0}\<close>; nothing else changes. A
  \<^verbatim>\<open>Reported\<close> report calls \<^verbatim>\<open>cleanupProgress\<close> of the pusher and changes nothing else: the
  cache and the timers stay as they are. A \<^verbatim>\<open>Finished\<close> report hands the payload to the
  pusher, leaves the cache as it is and registers the deletion of the entry for 5000
  milliseconds (the 5 time-units of the specification, in seconds) after the current
  time: as long as the clock is below that and no earlier deletion of the same task is
  due, the entry reads as before; once the clock has reached it, the entry is absent.
  A deletion is registered by a \<^verbatim>\<open>Finished\<close> report with the valid token and by nothing
  else: a progress report of any other type, and any other event but the clock, leaves
  the timers as they are, and the clock only takes timers away. The clock removes the
  entry of a task exactly when a deletion registered for that task is due, and no other
  event removes an entry of the cache.
\<close>

theorem progress_cache_lifecycle:
  assumes "token = judge_token env"
  shows "(report_type msg = Started \<longrightarrow>
            judgeStateCache (reportProgress env token msg s) =
              (judgeStateCache s)(report_taskId msg \<mapsto>
                 \<lparr>result = ''Compiling'', score = 0, time = 0, memory = 0\<rparr>)
          \<and> reportProgress env token msg s =
              s\<lparr>judgeStateCache := (judgeStateCache s)(report_taskId msg \<mapsto>
                   \<lparr>result = ''Compiling'', score = 0, time = 0, memory = 0\<rparr>),
                trace := trace s @
                  [Log Verbose (''Got progress from progress exchange, id: '' @
                                report_taskId msg),
                   CreateTask (report_taskId msg)]\<rparr>)
       \<and> (report_type msg = Reported \<longrightarrow>
            judgeStateCache (reportProgress env token msg s) = judgeStateCache s
          \<and> timers (reportProgress env token msg s) = timers s
          \<and> reportProgress env token msg s =
              s\<lparr>trace := trace s @
                  [Log Verbose (''Got progress from progress exchange, id: '' @
                                report_taskId msg),
                   CleanupProgress (report_taskId msg)]\<rparr>)
       \<and> (report_type msg = Finished \<longrightarrow>
            judgeStateCache (reportProgress env token msg s) = judgeStateCache s
          \<and> timers (reportProgress env token msg s) =
              timers s @ [(now s + 5000, report_taskId msg)]
          \<and> reportProgress env token msg s =
              s\<lparr>timers := timers s @ [(now s + 5000, report_taskId msg)],
                trace := trace s @
                  [Log Verbose (''Got progress from progress exchange, id: '' @
                                report_taskId msg),
                   UpdateResult (report_taskId msg) (progress msg)]\<rparr>
          \<and> (\<forall>t. t < now s + 5000 \<and> (\<forall>(due, k) \<in> set (timers s). k = report_taskId msg \<longrightarrow> t < due) \<longrightarrow>
                 judgeStateCache (run_timers t (reportProgress env token msg s))
                   (report_taskId msg) = judgeStateCache s (report_taskId msg))
          \<and> (\<forall>t. now s + 5000 \<le> t \<longrightarrow>
                 judgeStateCache (run_timers t (reportProgress env token msg s))
                   (report_taskId msg) = None))
       \<and> (report_type msg \<noteq> Finished \<longrightarrow>
            timers (reportProgress env token msg s) = timers s)
       \<and> (\<forall>ev. (\<forall>t. ev \<noteq> Clock t)
              \<and> (\<forall>tok m. ev = ReportProgress tok m \<longrightarrow>
                    tok \<noteq> judge_token env \<or> report_type m \<noteq> Finished) \<longrightarrow>
             timers (step env ev s) = timers s)
       \<and> (\<forall>t. set (timers (run_timers t s)) \<subseteq> set (timers s))
       \<and> (\<forall>t k. judgeStateCache (run_timers t s) k =
             (if \<exists>due. (due, k) \<in> set (timers s) \<and> due \<le> t then None
              else judgeStateCache s k))
       \<and> (\<forall>ev k v. (\<forall>t. ev \<noteq> Clock t) \<and> judgeStateCache s k = Some v \<longrightarrow>
             judgeStateCache (step env ev s) k \<noteq> None)"
proof (intro conjI impI allI)
  assume "report_type msg = Started"
  with assms show "judgeStateCache (reportProgress env token msg s) =
      (judgeStateCache s)(report_taskId msg \<mapsto>
         \<lparr>result = ''Compiling'', score = 0, time = 0, memory = 0\<rparr>)"
    and "reportProgress env token msg s =
      s\<lparr>judgeStateCache := (judgeStateCache s)(report_taskId msg \<mapsto>
           \<lparr>result = ''Compiling'', score = 0, time = 0, memory = 0\<rparr>),
        trace := trace s @
          [Log Verbose (''Got progress from progress exchange, id: '' @ report_taskId msg),
           CreateTask (report_taskId msg)]\<rparr>"
    by (simp_all add: reportProgress_Started)
next
  assume "report_type msg = Reported"
  with assms show "judgeStateCache (reportProgress env token msg s) = judgeStateCache s"
    and "timers (reportProgress env token msg s) = timers s"
    and "reportProgress env token msg s =
      s\<lparr>trace := trace s @
          [Log Verbose (''Got progress from progress exchange, id: '' @ report_taskId msg),
           CleanupProgress (report_taskId msg)]\<rparr>"
    by (simp_all add: reportProgress_Reported)
next
  assume f: "report_type msg = Finished"
  with assms show "judgeStateCache (reportProgress env token msg s) = judgeStateCache s"
    and "timers (reportProgress env token msg s) = timers s @ [(now s + 5000, report_taskId msg)]"
    and "reportProgress env token msg s =
      s\<lparr>timers := timers s @ [(now s + 5000, report_taskId msg)],
        trace := trace s @
          [Log Verbose (''Got progress from progress exchange, id: '' @ report_taskId msg),
           UpdateResult (report_taskId msg) (progress msg)]\<rparr>"
    by (simp_all add: reportProgress_Finished)
next
  fix t
  assume f: "report_type msg = Finished"
    and t: "t < now s + 5000 \<and> (\<forall>(due, k) \<in> set (timers s). k = report_taskId msg \<longrightarrow> t < due)"
  from t have "\<not> (\<exists>due. (due, report_taskId msg) \<in> set (timers s) \<and> due \<le> t)"
    by fastforce
  with t show "judgeStateCache (run_timers t (reportProgress env token msg s))
      (report_taskId msg) = judgeStateCache s (report_taskId msg)"
    by (auto simp add: run_timers_cache reportProgress_Finished [OF assms f])
next
  fix t
  assume f: "report_type msg = Finished" and t: "now s + 5000 \<le> t"
  then show "judgeStateCache (run_timers t (reportProgress env token msg s))
      (report_taskId msg) = None"
    by (auto simp add: run_timers_cache reportProgress_Finished [OF assms f])
next
  assume "report_type msg \<noteq> Finished"
  then show "timers (reportProgress env token msg s) = timers s"
    by (simp add: timers_reportProgress)
next
  fix ev
  assume "(\<forall>t. ev \<noteq> Clock t)
      \<and> (\<forall>tok m. ev = ReportProgress tok m \<longrightarrow>
            tok \<noteq> judge_token env \<or> report_type m \<noteq> Finished)"
  then show "timers (step env ev s) = timers s"
    using timers_kept_by_handlers by blast
next
  fix t
  show "set (timers (run_timers t s)) \<subseteq> set (timers s)"
    by (rule timers_run_timers)
next
  fix t k
  show "judgeStateCache (run_timers t s) k =
      (if \<exists>due. (due, k) \<in> set (timers s) \<and> due \<le> t then None else judgeStateCache s k)"
    by (rule run_timers_cache)
next
  fix ev k v
  assume "(\<forall>t. ev \<noteq> Clock t) \<and> judgeStateCache s k = Some v"
  then show "judgeStateCache (step env ev s) k \<noteq> None"
    using cache_kept_by_handlers by blast
qed

theorem progress_cache_lifecycle_witness:
  "''233'' = judge_token example_env
   \<and> report_type (example_report Started) = Started
   \<and> judgeStateCache (reportProgress example_env ''233'' (example_report Started)
        example_state) ''t1'' =
       Some \<lparr>result = ''Compiling'', score = 0, time = 0, memory = 0\<rparr>
   \<and> trace (reportProgress example_env ''233'' (example_report Started) example_state) =
       [Log Verbose ''Got progress from progress exchange, id: t1'', CreateTask ''t1'']
   \<and> report_type (example_report Reported) = Reported
   \<and> judgeStateCache (reportProgress example_env ''233'' (example_report Reported)
        example_running) ''t1'' =
       Some \<lparr>result = ''Running 3/4'', score = 75, time = 120, memory = 2048\<rparr>
   \<and> trace (reportProgress example_env ''233'' (example_report Reported) example_running) =
       [Log Verbose ''Got progress from progress exchange, id: t1'', CleanupProgress ''t1'']
   \<and> timers (reportProgress example_env ''233'' (example_report Reported) example_running) = []
   \<and> report_type (example_report Progress) \<noteq> Finished
   \<and> timers (reportProgress example_env ''233'' (example_report Progress) example_running) = []
   \<and> report_type (example_report Finished) = Finished
   \<and> timers (reportProgress example_env ''233'' (example_report Finished) example_running) =
       [(6000, ''t1'')]
   \<and> trace (reportProgress example_env ''233'' (example_report Finished) example_running) =
       [Log Verbose ''Got progress from progress exchange, id: t1'',
        UpdateResult ''t1'' example_payload]
   \<and> judgeStateCache (run_timers 5999
        (reportProgress example_env ''233'' (example_report Finished) example_running)) ''t1'' =
       Some \<lparr>result = ''Running 3/4'', score = 75, time = 120, memory = 2048\<rparr>
   \<and> judgeStateCache (run_timers 6000
        (reportProgress example_env ''233'' (example_report Finished) example_running)) ''t1'' =
       None"
proof -
  have t: "''233'' = judge_token example_env"
    by (simp add: example_env_def)
  have ty: "report_type (example_report Started) = Started"
    "report_type (example_report Reported) = Reported"
    "report_type (example_report Finished) = Finished"
    "report_type (example_report Progress) \<noteq> Finished"
    by (simp_all add: example_report_def)
  have i: "report_taskId (example_report ty) = ''t1''"
    "progress (example_report ty) = example_payload" for ty
    by (simp_all add: example_report_def)
  have r: "judgeStateCache example_running ''t1'' =
             Some \<lparr>result = ''Running 3/4'', score = 75, time = 120, memory = 2048\<rparr>"
    "timers example_running = []" "now example_running = 1000"
    "trace example_running = []"
    by (simp_all add: example_running_def example_state_def)
  have e: "judgeStateCache example_state = Map.empty" "trace example_state = []"
    by (simp_all add: example_state_def)
  note started = progress_cache_lifecycle [OF t, where msg = "example_report Started"
      and s = example_state]
  note reported = progress_cache_lifecycle [OF t, where msg = "example_report Reported"
      and s = example_running]
  note progressed = progress_cache_lifecycle [OF t, where msg = "example_report Progress"
      and s = example_running]
  note finished = progress_cache_lifecycle [OF t, where msg = "example_report Finished"
      and s = example_running]
  have a: "judgeStateCache (reportProgress example_env ''233'' (example_report Started)
        example_state) ''t1'' =
       Some \<lparr>result = ''Compiling'', score = 0, time = 0, memory = 0\<rparr>"
    using started ty(1) by (simp add: i)
  have a': "trace (reportProgress example_env ''233'' (example_report Started) example_state) =
       [Log Verbose ''Got progress from progress exchange, id: t1'', CreateTask ''t1'']"
  proof -
    from started ty(1) have "reportProgress example_env ''233'' (example_report Started)
        example_state =
      example_state\<lparr>judgeStateCache := (judgeStateCache example_state)
           (report_taskId (example_report Started) \<mapsto>
           \<lparr>result = ''Compiling'', score = 0, time = 0, memory = 0\<rparr>),
        trace := trace example_state @
          [Log Verbose (''Got progress from progress exchange, id: '' @
                        report_taskId (example_report Started)),
           CreateTask (report_taskId (example_report Started))]\<rparr>"
      by blast
    then show ?thesis by (simp add: i e)
  qed
  have b: "reportProgress example_env ''233'' (example_report Reported) example_running =
      example_running\<lparr>trace := trace example_running @
          [Log Verbose (''Got progress from progress exchange, id: '' @
                        report_taskId (example_report Reported)),
           CleanupProgress (report_taskId (example_report Reported))]\<rparr>"
    using reported ty(2) by blast
  have c: "timers (reportProgress example_env ''233'' (example_report Progress)
        example_running) = timers example_running"
    using progressed ty(4) by blast
  have d: "reportProgress example_env ''233'' (example_report Finished) example_running =
      example_running\<lparr>timers := timers example_running @
          [(now example_running + 5000, report_taskId (example_report Finished))],
        trace := trace example_running @
          [Log Verbose (''Got progress from progress exchange, id: '' @
                        report_taskId (example_report Finished)),
           UpdateResult (report_taskId (example_report Finished))
             (progress (example_report Finished))]\<rparr>"
    using finished ty(3) by blast
  have d1: "judgeStateCache (run_timers 5999
        (reportProgress example_env ''233'' (example_report Finished) example_running)) ''t1'' =
       Some \<lparr>result = ''Running 3/4'', score = 75, time = 120, memory = 2048\<rparr>"
  proof -
    from finished ty(3) have "\<forall>t. t < now example_running + 5000
        \<and> (\<forall>(due, k) \<in> set (timers example_running).
              k = report_taskId (example_report Finished) \<longrightarrow> t < due) \<longrightarrow>
        judgeStateCache (run_timers t
          (reportProgress example_env ''233'' (example_report Finished) example_running))
          (report_taskId (example_report Finished)) =
        judgeStateCache example_running (report_taskId (example_report Finished))"
      by blast
    from this [rule_format, of 5999] show ?thesis
      by (simp add: i r)
  qed
  have d2: "judgeStateCache (run_timers 6000
        (reportProgress example_env ''233'' (example_report Finished) example_running)) ''t1'' =
       None"
  proof -
    from finished ty(3) have "\<forall>t. now example_running + 5000 \<le> t \<longrightarrow>
        judgeStateCache (run_timers t
          (reportProgress example_env ''233'' (example_report Finished) example_running))
          (report_taskId (example_report Finished)) = None"
      by blast
    from this [rule_format, of 6000] show ?thesis
      by (simp add: i r)
  qed
  have b': "judgeStateCache (reportProgress example_env ''233'' (example_report Reported)
        example_running) ''t1'' =
       Some \<lparr>result = ''Running 3/4'', score = 75, time = 120, memory = 2048\<rparr>"
    "trace (reportProgress example_env ''233'' (example_report Reported) example_running) =
       [Log Verbose ''Got progress from progress exchange, id: t1'', CleanupProgress ''t1'']"
    "timers (reportProgress example_env ''233'' (example_report Reported) example_running) = []"
    by (simp_all add: b i r)
  have c': "timers (reportProgress example_env ''233'' (example_report Progress)
        example_running) = []"
    by (simp add: c r)
  have d': "timers (reportProgress example_env ''233'' (example_report Finished)
        example_running) = [(6000, ''t1'')]"
    "trace (reportProgress example_env ''233'' (example_report Finished) example_running) =
       [Log Verbose ''Got progress from progress exchange, id: t1'',
        UpdateResult ''t1'' example_payload]"
    by (simp_all add: d i r)
  show ?thesis
    using t ty a a' b' c' d' d1 d2 by simp
qed

lemma reportProgress_unmatched:
  assumes "token = judge_token env"
      and "report_type msg = Unrecognized \<or> report_type msg = CompiledLoosely"
  shows "reportProgress env token msg s =
           s\<lparr>trace := trace s @
               [Log Verbose (''Got progress from progress exchange, id: '' @
                             report_taskId msg)]\<rparr>"
  using assms by (auto simp add: reportProgress_def emit_def Let_def)

lemma reportResult_CompiledLoosely:
  assumes "token = judge_token env" and "report_type msg = CompiledLoosely"
  shows "reportResult env token msg s =
           reportResult env token (msg\<lparr>report_type := Compiled\<rparr>) s"
  using assms
  by (cases "JudgeState s (report_taskId msg)")
     (simp_all add: reportResult_def emit_def save_def Let_def)

lemma reportProgress_Unrecognized:
  assumes "token = judge_token env" and "report_type msg = Unrecognized"
  shows "reportProgress env token msg s =
           s\<lparr>trace := trace s @
               [Log Verbose (''Got progress from progress exchange, id: '' @
                             report_taskId msg)]\<rparr>"
  using assms by (simp add: reportProgress_def emit_def Let_def)

lemma reportResult_unsupported:
  assumes "token = judge_token env"
      and "report_type msg \<noteq> Finished" and "report_type msg \<noteq> Compiled"
      and "report_type msg \<noteq> CompiledLoosely"
  shows "reportResult env token msg s =
           s\<lparr>trace := trace s @
               [Log Verbose (''Received report for task '' @ report_taskId msg),
                Log Error (''Unsupported result type: '' @
                           type_text env (report_type msg))]\<rparr>"
  using assms
  by (cases "report_type msg") (simp_all add: reportResult_def emit_def Let_def)

text \<open>
  Claim C6, at a progress report with the valid token and a type that is none of the
  five: \<^verbatim>\<open>reportProgress\<close> changes nothing, as the claim says, but its chain of tests has
  no final \<^verbatim>\<open>else\<close>, and the only line it logs is the one every progress report gets, at
  level \<^verbatim>\<open>verbose\<close>. The error line of the claim is written by \<^verbatim>\<open>reportResult\<close> only
  (\<open>reportResult_unsupported\<close>), for every type that its \<^verbatim>\<open>Finished\<close> and \<^verbatim>\<open>Compiled\<close>
  tests both refuse.
\<close>

theorem reportProgress_Unrecognized_not_logged_as_error:
  "reportProgress example_env ''233'' (example_report Unrecognized) example_state =
     example_state\<lparr>trace := [Log Verbose ''Got progress from progress exchange, id: t1'']\<rparr>
   \<and> reportResult example_env ''233'' (example_report Unrecognized) example_state =
     example_state\<lparr>trace := [Log Verbose ''Received report for task t1'',
                               Log Error ''Unsupported result type: 9'']\<rparr>"
  by (simp add: reportProgress_def reportResult_def emit_def Let_def example_env_def
      example_state_def example_report_def)

subsection \<open>Result reports\<close>

text \<open>
  Claim C2, as the code has it. A \<^verbatim>\<open>Finished\<close> result with the valid token for a task
  that has no row converts the payload and calls \<^verbatim>\<open>cleanupProgress\<close> before it looks at
  the row; then it returns. The table, the cache, the queue, the timers and the session
  are unchanged, nothing is saved and \<^verbatim>\<open>updateRelatedInfo\<close> is not called; the trace grows
  by two \<^verbatim>\<open>verbose\<close> log lines and the one call of \<^verbatim>\<open>cleanupProgress\<close>.
\<close>

theorem reportResult_Finished_no_record:
  assumes "token = judge_token env" and "report_type msg = Finished"
      and "JudgeState s (report_taskId msg) = None"
  shows "reportResult env token msg s =
           s\<lparr>trace := trace s @
                [Log Verbose (''Received report for task '' @ report_taskId msg),
                 Log Verbose (''Reporting report finished: '' @ report_taskId msg),
                 CleanupProgress (report_taskId msg)]\<rparr>"
  using assms by (simp add: reportResult_def emit_def Let_def)

theorem reportResult_Finished_no_record_witness:
  "''233'' = judge_token example_env
   \<and> report_type (example_report Finished) = Finished
   \<and> JudgeState example_state (report_taskId (example_report Finished)) = None
   \<and> reportResult example_env ''233'' (example_report Finished) example_state =
       example_state\<lparr>trace :=
         [Log Verbose ''Received report for task t1'',
          Log Verbose ''Reporting report finished: t1'',
          CleanupProgress ''t1'']\<rparr>"
proof -
  have t: "''233'' = judge_token example_env"
    by (simp add: example_env_def)
  have f: "report_type (example_report Finished) = Finished"
    by (simp add: example_report_def)
  have n: "JudgeState example_state (report_taskId (example_report Finished)) = None"
    by (simp add: example_state_def)
  show ?thesis
    using reportResult_Finished_no_record [OF t f n] t f n
    by (simp add: example_report_def example_state_def)
qed

text \<open>
  Claim C2 as written says that the external observer is not notified. For a task with
  no row, the \<^verbatim>\<open>Finished\<close> result with the valid token calls \<^verbatim>\<open>cleanupProgress\<close>.
\<close>

theorem reportResult_Finished_no_record_counterexample:
  "''233'' = judge_token example_env
   \<and> report_type (example_report Finished) = Finished
   \<and> JudgeState example_state ''t1'' = None
   \<and> CleanupProgress ''t1'' \<in>
       set (trace (reportResult example_env ''233'' (example_report Finished) example_state))"
  by (simp add: reportResult_def emit_def Let_def example_env_def example_state_def
      example_report_def)

text \<open>
  Claim C10. A \<^verbatim>\<open>Compiled\<close> result with the valid token for a task that has a row writes
  the payload to the \<open>compilation\<close> column of the row and saves the row: every other
  column of the row, every other row and the rest of the state are as before, and the
  trace grows by the log line and the \<^verbatim>\<open>save\<close>, with no call of \<^verbatim>\<open>updateRelatedInfo\<close>.
\<close>

theorem reportResult_Compiled_frame:
  assumes "token = judge_token env" and "report_type msg = Compiled"
      and "JudgeState s (report_taskId msg) = Some row"
  shows "reportResult env token msg s =
           s\<lparr>JudgeState := (JudgeState s)(report_taskId msg \<mapsto>
                              row\<lparr>compilation := Some (progress msg)\<rparr>),
             trace := trace s @
                [Log Verbose (''Received report for task '' @ report_taskId msg),
                 Save (report_taskId msg)]\<rparr>"
  using assms by (simp add: reportResult_def emit_def Let_def save_def)

theorem reportResult_Compiled_frame_witness:
  "''233'' = judge_token example_env
   \<and> report_type (example_report Compiled) = Compiled
   \<and> JudgeState example_tracked (report_taskId (example_report Compiled)) = Some example_row
   \<and> JudgeState (reportResult example_env ''233'' (example_report Compiled) example_tracked)
        ''t1'' = Some (example_row\<lparr>compilation := Some example_payload\<rparr>)
   \<and> trace (reportResult example_env ''233'' (example_report Compiled) example_tracked) =
       [Log Verbose ''Received report for task t1'', Save ''t1'']"
proof -
  have t: "''233'' = judge_token example_env"
    by (simp add: example_env_def)
  have f: "report_type (example_report Compiled) = Compiled"
    by (simp add: example_report_def)
  have n: "JudgeState example_tracked (report_taskId (example_report Compiled)) =
             Some example_row"
    by (simp add: example_tracked_def example_report_def)
  show ?thesis
    using reportResult_Compiled_frame [OF t f n] t f n
    by (simp add: example_report_def example_tracked_def example_state_def)
qed

subsection \<open>Submitting a task\<close>

lemma push_eq:
  "push t p s = s\<lparr>judgeQueue := redisZADD p t (judgeQueue s),
                   trace := trace s @ [RedisZADD p t]\<rparr>"
  by (simp add: push_def emit_def)

lemma judge_answer_unreadable:
  assumes "problem_type pr = ''submit-answer''"
      and "readFileAsync env (resolvePath env ''answer'' (code js)) = Inl e"
  shows "judge env js pr prio s = (Some e, s)"
  using assms by (simp add: judge_def Let_def)

lemma judge_answer:
  assumes "problem_type pr = ''submit-answer''"
      and "readFileAsync env (resolvePath env ''answer'' (code js)) = Inr bytes"
  shows "judge env js pr prio s =
           (None,
            push \<lparr>content = \<lparr>taskId = task_id js, testData = decimal (problem_id pr),
                             type = AnswerSubmission, priority = prio, param = None\<rparr>,
                  extraData = Some bytes\<rparr> prio s)"
  using assms by (simp add: judge_def Let_def)

lemma judge_interaction:
  assumes "problem_type pr = ''interaction''"
  shows "judge env js pr prio s =
           (None,
            push \<lparr>content = \<lparr>taskId = task_id js, testData = decimal (problem_id pr),
                             type = Interaction, priority = prio,
                             param = Some (InteractionParam (language js) (code js)
                                             (time_limit pr) (memory_limit pr))\<rparr>,
                  extraData = None\<rparr> prio s)"
  using assms by (simp add: judge_def Let_def)

lemma judge_standard:
  assumes "problem_type pr \<noteq> ''submit-answer''" and "problem_type pr \<noteq> ''interaction''"
  shows "judge env js pr prio s =
           (None,
            push \<lparr>content = \<lparr>taskId = task_id js, testData = decimal (problem_id pr),
                             type = Standard, priority = prio,
                             param = Some (StandardParam (language js) (code js)
                                       (time_limit pr) (memory_limit pr)
                                       (if file_io pr then Some (file_io_input_name pr) else None)
                                       (if file_io pr then Some (file_io_output_name pr) else None))\<rparr>,
                  extraData = None\<rparr> prio s)"
  using assms by (simp add: judge_def Let_def)

text \<open>
  Claim C8. \<^verbatim>\<open>judge\<close> either fails, which it does only for a \<^verbatim>\<open>submit-answer\<close> problem
  whose answer file cannot be read, and then the state is untouched; or it sends exactly
  one \<^verbatim>\<open>ZADD\<close>, with the given priority and a task built from the row and the problem.
  The type of the task follows the type of the problem; \<open>extraData\<close> is present exactly
  for \<open>AnswerSubmission\<close>, where it holds the bytes read and \<open>param\<close> is absent; for
  the other two types \<open>param\<close> holds the language, the code and the limits, and for
  \<open>Standard\<close> also the file names, which are absent unless the problem uses file IO.
\<close>

theorem judge_enqueues_one_task:
  "case judge env js pr prio s of
     (Some e, s') \<Rightarrow>
       s' = s \<and> problem_type pr = ''submit-answer''
       \<and> readFileAsync env (resolvePath env ''answer'' (code js)) = Inl e
   | (None, s') \<Rightarrow>
       (\<exists>t. s' = s\<lparr>judgeQueue := redisZADD prio t (judgeQueue s),
                     trace := trace s @ [RedisZADD prio t]\<rparr>
          \<and> taskId (content t) = task_id js
          \<and> testData (content t) = decimal (problem_id pr)
          \<and> priority (content t) = prio
          \<and> type (content t) =
              (if problem_type pr = ''submit-answer'' then AnswerSubmission
               else if problem_type pr = ''interaction'' then Interaction else Standard)
          \<and> (extraData t \<noteq> None \<longleftrightarrow> type (content t) = AnswerSubmission)
          \<and> (param (content t) = None \<longleftrightarrow> type (content t) = AnswerSubmission)
          \<and> (type (content t) = AnswerSubmission \<longrightarrow>
               readFileAsync env (resolvePath env ''answer'' (code js)) =
                 Inr (the (extraData t)))
          \<and> (type (content t) = Interaction \<longrightarrow>
               param (content t) =
                 Some (InteractionParam (language js) (code js)
                         (time_limit pr) (memory_limit pr)))
          \<and> (type (content t) = Standard \<longrightarrow>
               param (content t) =
                 Some (StandardParam (language js) (code js)
                         (time_limit pr) (memory_limit pr)
                         (if file_io pr then Some (file_io_input_name pr) else None)
                         (if file_io pr then Some (file_io_output_name pr) else None))))"
proof (cases "problem_type pr = ''submit-answer''")
  case True
  show ?thesis
  proof (cases "readFileAsync env (resolvePath env ''answer'' (code js))")
    case (Inl e)
    with True have "judge env js pr prio s = (Some e, s)"
      by (rule judge_answer_unreadable)
    with True Inl show ?thesis
      by simp
  next
    case (Inr bytes)
    let ?t = "\<lparr>content = \<lparr>taskId = task_id js, testData = decimal (problem_id pr),
                           type = AnswerSubmission, priority = prio, param = None\<rparr>,
                extraData = Some bytes\<rparr>"
    from True Inr have j: "judge env js pr prio s = (None, push ?t prio s)"
      by (rule judge_answer)
    show ?thesis
      by (simp only: j prod.case option.case) (rule exI [of _ ?t], simp add: push_eq True Inr)
  qed
next
  case False
  show ?thesis
  proof (cases "problem_type pr = ''interaction''")
    case True
    let ?t = "\<lparr>content = \<lparr>taskId = task_id js, testData = decimal (problem_id pr),
                           type = Interaction, priority = prio,
                           param = Some (InteractionParam (language js) (code js)
                                           (time_limit pr) (memory_limit pr))\<rparr>,
                extraData = None\<rparr>"
    from True have j: "judge env js pr prio s = (None, push ?t prio s)"
      by (rule judge_interaction)
    show ?thesis
      by (simp only: j prod.case option.case) (rule exI [of _ ?t], simp add: push_eq True)
  next
    case notI: False
    let ?t = "\<lparr>content = \<lparr>taskId = task_id js, testData = decimal (problem_id pr),
                           type = Standard, priority = prio,
                           param = Some (StandardParam (language js) (code js)
                                     (time_limit pr) (memory_limit pr)
                                     (if file_io pr then Some (file_io_input_name pr) else None)
                                     (if file_io pr then Some (file_io_output_name pr) else None))\<rparr>,
                extraData = None\<rparr>"
    from False notI have j: "judge env js pr prio s = (None, push ?t prio s)"
      by (rule judge_standard)
    show ?thesis
      by (simp only: j prod.case option.case)
         (rule exI [of _ ?t], simp add: push_eq False notI)
  qed
qed

theorem judge_enqueues_one_task_witness:
  "judge example_env example_row (example_problem ''submit-answer'') 5 example_state =
     (None,
      example_state
        \<lparr>judgeQueue :=
           [(\<lparr>content = \<lparr>taskId = ''t1'', testData = ''7'', type = AnswerSubmission,
                          priority = 5, param = None\<rparr>,
              extraData = Some [80, 75]\<rparr>, 5)],
         trace :=
           [RedisZADD 5 \<lparr>content = \<lparr>taskId = ''t1'', testData = ''7'',
                                     type = AnswerSubmission, priority = 5, param = None\<rparr>,
                         extraData = Some [80, 75]\<rparr>]\<rparr>)
   \<and> judge example_env (example_row\<lparr>code := ''zz''\<rparr>) (example_problem ''submit-answer'') 5
       example_state = (Some (ReadFileError ''answer/zz''), example_state)"
proof -
  have r: "readFileAsync example_env
             (resolvePath example_env ''answer'' (code example_row)) = Inr [80, 75]"
    "readFileAsync example_env
       (resolvePath example_env ''answer'' ''zz'') = Inl (ReadFileError ''answer/zz'')"
    by (simp_all add: example_env_def example_row_def)
  have p: "problem_type (example_problem ''submit-answer'') = ''submit-answer''"
    "problem_id (example_problem ''submit-answer'') = 7"
    by (simp_all add: example_problem_def)
  have d: "decimal 7 = ''7''"
    by (simp add: decimal.simps)
  have i: "task_id example_row = ''t1''"
    by (simp add: example_row_def)
  have q: "judgeQueue example_state = []" "trace example_state = []"
    by (simp_all add: example_state_def)
  have a: "fst (judge example_env example_row (example_problem ''submit-answer'') 5
             example_state) = None"
    by (simp add: judge_def Let_def r p)
  have b: "fst (judge example_env (example_row\<lparr>code := ''zz''\<rparr>)
             (example_problem ''submit-answer'') 5 example_state) \<noteq> None"
    by (simp add: judge_def Let_def r p)
  obtain s' where j: "judge example_env example_row (example_problem ''submit-answer'') 5
      example_state = (None, s')"
    using a by (metis prod.collapse)
  from judge_enqueues_one_task [where env = example_env and js = example_row
      and pr = "example_problem ''submit-answer''" and prio = 5 and s = example_state]
  obtain t where t: "s' = example_state\<lparr>judgeQueue := redisZADD 5 t (judgeQueue example_state),
                     trace := trace example_state @ [RedisZADD 5 t]\<rparr>"
      "taskId (content t) = ''t1''" "testData (content t) = ''7''"
      "priority (content t) = 5" "type (content t) = AnswerSubmission"
      "extraData t \<noteq> None" "param (content t) = None"
      "Inr [80, 75] = (Inr (the (extraData t)) :: error + nat list)"
    by (auto simp add: j r p d i)
  have "t = \<lparr>content = \<lparr>taskId = ''t1'', testData = ''7'', type = AnswerSubmission,
                          priority = 5, param = None\<rparr>,
              extraData = Some [80, 75]\<rparr>"
    using t(2-8) by (cases t; cases "content t") auto
  with t(1) have first: "s' = example_state
        \<lparr>judgeQueue :=
           [(\<lparr>content = \<lparr>taskId = ''t1'', testData = ''7'', type = AnswerSubmission,
                          priority = 5, param = None\<rparr>,
              extraData = Some [80, 75]\<rparr>, 5)],
         trace :=
           [RedisZADD 5 \<lparr>content = \<lparr>taskId = ''t1'', testData = ''7'',
                                     type = AnswerSubmission, priority = 5, param = None\<rparr>,
                         extraData = Some [80, 75]\<rparr>]\<rparr>"
    by (simp add: q redisZADD_def)
  obtain e s'' where k: "judge example_env (example_row\<lparr>code := ''zz''\<rparr>)
      (example_problem ''submit-answer'') 5 example_state = (Some e, s'')"
    using b by (metis prod.collapse option.exhaust)
  from judge_enqueues_one_task [where env = example_env
      and js = "example_row\<lparr>code := ''zz''\<rparr>"
      and pr = "example_problem ''submit-answer''" and prio = 5 and s = example_state]
  have "s'' = example_state \<and> e = ReadFileError ''answer/zz''"
    by (simp add: k r)
  with j first k show ?thesis by simp
qed

end
